theory Spec2Isabelle
  imports Main "HOL-Library.Word"
begin

unbundle bit_operations_syntax

section \<open>stunstamp (Linux): data model\<close>

text \<open>
  The embedding follows \<^verbatim>\<open>cmd/stunstamp/stunstamp_linux.go\<close>. Functions of other
  packages (\<^verbatim>\<open>x/net/icmp\<close>, \<^verbatim>\<open>x/sys/unix\<close>, \<^verbatim>\<open>net/stun\<close>) are parameters of the
  model, collected in the record \<open>extern\<close>; what the operating system and the network do
  (system call results, the datagrams a socket delivers, clock readings, random numbers)
  is the record \<open>world\<close>. Every theorem holds for all values of both.
\<close>

type_synonym byte = "8 word"
type_synonym bytes = "byte list"

subsection \<open>Errors\<close>

text \<open>
  A Go \<^verbatim>\<open>error\<close> value. \<open>Errorf_v p t\<close> is \<^verbatim>\<open>fmt.Errorf(p + "%v", x)\<close> (and the
  \<^verbatim>\<open>%T\<close> form): only the text \<open>t\<close> of the operand is kept, there is no chain.
  \<open>Errorf_w p e\<close> is \<^verbatim>\<open>fmt.Errorf(p + "%w", e)\<close>, which wraps \<open>e\<close>.
\<close>

datatype go_error =
    errors_New string
  | context_DeadlineExceeded
  | Errorf_v string string
  | Errorf_w string go_error

fun Error :: "go_error \<Rightarrow> string" where
  "Error (errors_New s) = s"
| "Error context_DeadlineExceeded = ''context deadline exceeded''"
| "Error (Errorf_v p t) = p @ t"
| "Error (Errorf_w p e) = p @ Error e"


text \<open>\<^verbatim>\<open>errors.Is\<close>: the target is the error itself or is reached through \<^verbatim>\<open>Unwrap\<close>.\<close>

fun errors_Is :: "go_error \<Rightarrow> go_error \<Rightarrow> bool" where
  "errors_Is (Errorf_w p e) target = (Errorf_w p e = target \<or> errors_Is e target)"
| "errors_Is e target = (e = target)"

subsection \<open>Time\<close>

text \<open>
  A \<^verbatim>\<open>time.Time\<close> is kept with its origin: \<open>Wallclock t\<close> is a reading of
  \<^verbatim>\<open>time.Now()\<close>, \<open>time_Unix sec nsec\<close> is the value of \<^verbatim>\<open>time.Unix(sec, nsec)\<close>.
  A \<^verbatim>\<open>time.Duration\<close> produced by this file is always \<^verbatim>\<open>rxAt.Sub(txAt)\<close>, written
  \<open>Sub rxAt txAt\<close>.
\<close>

datatype time_Time = Wallclock int | time_Unix int int

datatype time_Duration = Sub time_Time time_Time

subsection \<open>Enumerations declared outside this file\<close>

text \<open>
  Modelled from the spec: the declarations of \<^verbatim>\<open>timestampSource\<close>, \<^verbatim>\<open>protocol\<close> and
  \<^verbatim>\<open>protocolSupportInfo\<close>, which are in another file of the package. The spec gives
  the first the values kernel and userspace, the second the values STUN, ICMP, TCP and
  HTTPS, and the third the boolean fields \<^verbatim>\<open>kernelTS\<close>, \<^verbatim>\<open>userspaceTS\<close> and
  \<^verbatim>\<open>stableConn\<close>. The source compares \<^verbatim>\<open>source\<close> with \<^verbatim>\<open>timestampSourceKernel\<close>
  only, and its \<^verbatim>\<open>switch\<close> on a protocol ends with \<^verbatim>\<open>return protocolSupportInfo{}\<close>
  for a value that is none of the four constants, which is \<open>protocolOther\<close> here.
\<close>

datatype timestampSource = timestampSourceUserspace | timestampSourceKernel

datatype protocol = protocolSTUN | protocolICMP | protocolHTTPS | protocolTCP | protocolOther

record protocolSupportInfo =
  kernelTS :: bool
  userspaceTS :: bool
  stableConn :: bool

subsection \<open>Constants of the Linux ABI\<close>

definition SOL_SOCKET :: int where "SOL_SOCKET = 1"
definition SO_TIMESTAMPING_NEW :: int where "SO_TIMESTAMPING_NEW = 65"
definition SOF_TIMESTAMPING_TX_SOFTWARE :: int where "SOF_TIMESTAMPING_TX_SOFTWARE = 2"
definition SOF_TIMESTAMPING_RX_SOFTWARE :: int where "SOF_TIMESTAMPING_RX_SOFTWARE = 8"
definition SOF_TIMESTAMPING_SOFTWARE :: int where "SOF_TIMESTAMPING_SOFTWARE = 16"
definition AF_INET :: int where "AF_INET = 2"
definition AF_INET6 :: int where "AF_INET6 = 10"
definition SOCK_DGRAM :: int where "SOCK_DGRAM = 2"
definition IPPROTO_ICMP :: int where "IPPROTO_ICMP = 1"
definition IPPROTO_UDP :: int where "IPPROTO_UDP = 17"
definition IPPROTO_ICMPV6 :: int where "IPPROTO_ICMPV6 = 58"
definition math_MaxUint16 :: nat where "math_MaxUint16 = 65535"

definition timestampingFlags :: int where
  "timestampingFlags =
     SOF_TIMESTAMPING_TX_SOFTWARE OR SOF_TIMESTAMPING_RX_SOFTWARE OR SOF_TIMESTAMPING_SOFTWARE"

subsection \<open>Addresses and sockets\<close>

text \<open>
  A \<^verbatim>\<open>netip.Addr\<close> is the zero value, an IPv4 address (4 bytes) or an IPv6 address
  (16 bytes, which includes the IPv4-mapped ones). \<^verbatim>\<open>Is4\<close> and \<^verbatim>\<open>Is6\<close> are false
  on the zero value, and \<^verbatim>\<open>AsSlice\<close> is empty there.
\<close>

datatype netip_Addr = Addr_zero | Addr_v4 bytes | Addr_v6 bytes

fun Is4 :: "netip_Addr \<Rightarrow> bool" where
  "Is4 (Addr_v4 b) = True"
| "Is4 a = False"

fun Is6 :: "netip_Addr \<Rightarrow> bool" where
  "Is6 (Addr_v6 b) = True"
| "Is6 a = False"

fun AsSlice :: "netip_Addr \<Rightarrow> bytes" where
  "AsSlice Addr_zero = []"
| "AsSlice (Addr_v4 b) = b"
| "AsSlice (Addr_v6 b) = b"

record netip_AddrPort =
  Addr :: netip_Addr
  Port :: nat

datatype unix_Sockaddr = SockaddrInet4 nat bytes | SockaddrInet6 nat bytes

text \<open>\<^verbatim>\<open>copy(dst[:], src)\<close> into a zeroed array of \<open>n\<close> bytes.\<close>

definition copy_into :: "nat \<Rightarrow> bytes \<Rightarrow> bytes" where
  "copy_into n src = take n src @ replicate (n - length src) 0"

record socket_Conn =
  conn_domain :: int
  conn_type :: int
  conn_proto :: int
  conn_name :: string
  bound :: "unix_Sockaddr option"
  sockopts :: "(int \<times> int \<times> int) list"

text \<open>An \<^verbatim>\<open>io.ReadWriteCloser\<close>: a \<^verbatim>\<open>*socket.Conn\<close>, or a value of another type (its name).\<close>

datatype conn = SocketConn socket_Conn | OtherConn string

text \<open>
  The results the operating system gives to the three calls the connection factories
  make: \<open>None\<close> is success.
\<close>

record sys =
  socket_err :: "go_error option"
  bind_err :: "go_error option"
  setsockopt_err :: "go_error option"

definition socket_Socket :: "sys \<Rightarrow> int \<Rightarrow> int \<Rightarrow> int \<Rightarrow> string \<Rightarrow> go_error + socket_Conn" where
  "socket_Socket K d t p n =
     (case socket_err K of
        Some err \<Rightarrow> Inl err
      | None \<Rightarrow> Inr \<lparr>conn_domain = d, conn_type = t, conn_proto = p, conn_name = n, bound = None, sockopts = []\<rparr>)"

definition Bind :: "sys \<Rightarrow> socket_Conn \<Rightarrow> unix_Sockaddr \<Rightarrow> go_error option \<times> socket_Conn" where
  "Bind K c sa =
     (case bind_err K of
        Some err \<Rightarrow> (Some err, c)
      | None \<Rightarrow> (None, c\<lparr>bound := Some sa\<rparr>))"

definition SetsockoptInt ::
  "sys \<Rightarrow> socket_Conn \<Rightarrow> int \<Rightarrow> int \<Rightarrow> int \<Rightarrow> go_error option \<times> socket_Conn" where
  "SetsockoptInt K c level opt v =
     (case setsockopt_err K of
        Some err \<Rightarrow> (Some err, c)
      | None \<Rightarrow> (None, c\<lparr>sockopts := (level, opt, v) # sockopts c\<rparr>))"

section \<open>Connection factories\<close>

text \<open>
  A Go result \<^verbatim>\<open>(io.ReadWriteCloser, error)\<close> is a pair of options: both components can
  be non-nil at once.
\<close>

definition getUDPConnKernelTimestamp :: "sys \<Rightarrow> socket_Conn option \<times> go_error option" where
  "getUDPConnKernelTimestamp K =
     (case socket_Socket K AF_INET6 SOCK_DGRAM IPPROTO_UDP ''udp'' of
        Inl err \<Rightarrow> (None, Some err)
      | Inr sconn \<Rightarrow>
          (let sa = SockaddrInet6 0 (replicate 16 0) in
           case Bind K sconn sa of
             (Some err, _) \<Rightarrow> (None, Some err)
           | (None, sconn1) \<Rightarrow>
               (case SetsockoptInt K sconn1 SOL_SOCKET SO_TIMESTAMPING_NEW timestampingFlags of
                  (Some err, _) \<Rightarrow> (None, Some err)
                | (None, sconn2) \<Rightarrow> (Some sconn2, None))))"

definition getICMPConn ::
  "sys \<Rightarrow> netip_Addr \<Rightarrow> timestampSource \<Rightarrow> socket_Conn option \<times> go_error option" where
  "getICMPConn K forDst source =
     (let domain0 = (if Is6 forDst then AF_INET6 else AF_INET);
          proto0 = (if Is6 forDst then IPPROTO_ICMPV6 else IPPROTO_ICMP)
      in case socket_Socket K domain0 SOCK_DGRAM proto0 ''icmp'' of
           Inl err \<Rightarrow> (None, Some err)
         | Inr conn0 \<Rightarrow>
             (if source = timestampSourceKernel
              then (case SetsockoptInt K conn0 SOL_SOCKET SO_TIMESTAMPING_NEW timestampingFlags of
                      (err, conn1) \<Rightarrow> (Some conn1, err))
              else (Some conn0, None)))"

section \<open>Protocol capability table\<close>

fun getProtocolSupportInfo :: "protocol \<Rightarrow> protocolSupportInfo" where
  "getProtocolSupportInfo protocolSTUN = \<lparr>kernelTS = True, userspaceTS = True, stableConn = True\<rparr>"
| "getProtocolSupportInfo protocolHTTPS = \<lparr>kernelTS = False, userspaceTS = True, stableConn = True\<rparr>"
| "getProtocolSupportInfo protocolTCP = \<lparr>kernelTS = True, userspaceTS = False, stableConn = True\<rparr>"
| "getProtocolSupportInfo protocolICMP = \<lparr>kernelTS = True, userspaceTS = True, stableConn = False\<rparr>"
| "getProtocolSupportInfo protocolOther = \<lparr>kernelTS = False, userspaceTS = False, stableConn = False\<rparr>"

section \<open>Control-message timestamp decoder\<close>

text \<open>A \<^verbatim>\<open>unix.SocketControlMessage\<close>: the header's level and type, and the data.\<close>

record unix_SocketControlMessage =
  Header_Level :: int
  Header_Type :: int
  Cmsg_Data :: bytes

text \<open>
  \<^verbatim>\<open>binary.NativeEndian\<close> is fixed by the build target, so the byte order is a
  parameter. \<^verbatim>\<open>Uint64\<close> reads \<^verbatim>\<open>b[0]\<close> to \<^verbatim>\<open>b[7]\<close>; the one caller passes
  slices of exactly 8 bytes.
\<close>

datatype byte_order = LittleEndian | BigEndian

definition LittleEndian_Uint64 :: "bytes \<Rightarrow> 64 word" where
  "LittleEndian_Uint64 b =
     ucast (b ! 0) OR push_bit 8 (ucast (b ! 1)) OR push_bit 16 (ucast (b ! 2))
     OR push_bit 24 (ucast (b ! 3)) OR push_bit 32 (ucast (b ! 4)) OR push_bit 40 (ucast (b ! 5))
     OR push_bit 48 (ucast (b ! 6)) OR push_bit 56 (ucast (b ! 7))"

definition BigEndian_Uint64 :: "bytes \<Rightarrow> 64 word" where
  "BigEndian_Uint64 b =
     ucast (b ! 7) OR push_bit 8 (ucast (b ! 6)) OR push_bit 16 (ucast (b ! 5))
     OR push_bit 24 (ucast (b ! 4)) OR push_bit 32 (ucast (b ! 3)) OR push_bit 40 (ucast (b ! 2))
     OR push_bit 48 (ucast (b ! 1)) OR push_bit 56 (ucast (b ! 0))"

fun NativeEndian_Uint64 :: "byte_order \<Rightarrow> bytes \<Rightarrow> 64 word" where
  "NativeEndian_Uint64 LittleEndian b = LittleEndian_Uint64 b"
| "NativeEndian_Uint64 BigEndian b = BigEndian_Uint64 b"

subsection \<open>ICMP and STUN messages\<close>

datatype icmp_Type = ipv4_ICMPType nat | ipv6_ICMPType nat

definition ipv4_ICMPTypeEcho :: icmp_Type where "ipv4_ICMPTypeEcho = ipv4_ICMPType 8"
definition ipv4_ICMPTypeEchoReply :: icmp_Type where "ipv4_ICMPTypeEchoReply = ipv4_ICMPType 0"
definition ipv6_ICMPTypeEchoRequest :: icmp_Type where "ipv6_ICMPTypeEchoRequest = ipv6_ICMPType 128"
definition ipv6_ICMPTypeEchoReply :: icmp_Type where "ipv6_ICMPTypeEchoReply = ipv6_ICMPType 129"

fun Protocol :: "icmp_Type \<Rightarrow> int" where
  "Protocol (ipv4_ICMPType t) = 1"
| "Protocol (ipv6_ICMPType t) = 58"

record icmp_Echo =
  ID :: int
  Seq :: int
  Data :: bytes

text \<open>A message body is an \<^verbatim>\<open>*icmp.Echo\<close> or a body of another type.\<close>

datatype icmp_MessageBody = Echo icmp_Echo | OtherBody bytes

record icmp_Message =
  Type :: icmp_Type
  Code :: int
  Checksum :: int
  Body :: icmp_MessageBody

type_synonym stun_TxID = bytes

subsection \<open>Library functions and the environment\<close>

record extern =
  NativeEndian :: byte_order
  unix_ParseSocketControlMessage :: "bytes \<Rightarrow> go_error + unix_SocketControlMessage list"
  icmp_ParseMessage :: "int \<Rightarrow> bytes \<Rightarrow> go_error + icmp_Message"
  icmp_Marshal :: "icmp_Message \<Rightarrow> go_error + bytes"
  stun_Request :: "stun_TxID \<Rightarrow> bytes"
  stun_ParseResponse :: "bytes \<Rightarrow> go_error + stun_TxID \<times> netip_AddrPort"

text \<open>
  One call of \<^verbatim>\<open>Recvmsg\<close> fails with an error or delivers a datagram and its control
  data. A queue is the finite sequence of results the socket gives before the deadline of
  the context; on the empty queue \<^verbatim>\<open>Recvmsg\<close> fails with \<open>deadline_err\<close>, the error the
  socket library returns once the deadline has passed (whatever value that is). A datagram
  longer than the buffer passed is cut to the buffer's length.
\<close>

datatype recvmsg = Recv_err go_error | Recv_ok bytes bytes

record world =
  rand_src :: nat
  wall :: "nat \<Rightarrow> int"
  new_TxID :: stun_TxID
  Sendto_result :: "bytes \<Rightarrow> unix_Sockaddr \<Rightarrow> go_error option"
  deadline_err :: go_error
  errqueue :: "recvmsg list"
  rxqueue :: "recvmsg list"

text \<open>\<^verbatim>\<open>rand.Int32N(n)\<close> is some value of the half-open interval from 0 to \<open>n\<close>.\<close>

definition rand_Int32N :: "world \<Rightarrow> nat \<Rightarrow> int" where
  "rand_Int32N W n = int (rand_src W mod n)"

text \<open>The \<open>k\<close>-th call of \<^verbatim>\<open>time.Now()\<close>.\<close>

definition time_Now :: "world \<Rightarrow> nat \<Rightarrow> time_Time" where
  "time_Now W k = Wallclock (wall W k)"

subsection \<open>parseTimestampFromCmsgs\<close>

fun scan_cmsgs :: "byte_order \<Rightarrow> unix_SocketControlMessage list \<Rightarrow> go_error + time_Time" where
  "scan_cmsgs bo [] = Inl (errors_New ''failed to parse timestamp from cmsgs'')"
| "scan_cmsgs bo (msg # msgs) =
     (if Header_Level msg = SOL_SOCKET \<and> Header_Type msg = SO_TIMESTAMPING_NEW
         \<and> length (Cmsg_Data msg) \<ge> 16
      then let sec = sint (NativeEndian_Uint64 bo (take 8 (Cmsg_Data msg)));
               ns = sint (NativeEndian_Uint64 bo (take 8 (drop 8 (Cmsg_Data msg))))
           in Inr (time_Unix sec ns)
      else scan_cmsgs bo msgs)"

definition parseTimestampFromCmsgs :: "extern \<Rightarrow> bytes \<Rightarrow> go_error + time_Time" where
  "parseTimestampFromCmsgs X oob =
     (case unix_ParseSocketControlMessage X oob of
        Inl err \<Rightarrow> Inl (Errorf_w ''error parsing oob as cmsgs: '' err)
      | Inr msgs \<Rightarrow> scan_cmsgs (NativeEndian X) msgs)"

section \<open>ICMP measurement\<close>

definition icmp_txBody :: "world \<Rightarrow> icmp_Echo" where
  "icmp_txBody W =
     \<lparr>ID = 0, Seq = rand_Int32N W math_MaxUint16, Data = map of_char ''stunstamp''\<rparr>"

definition icmp_txMsg :: "world \<Rightarrow> netip_AddrPort \<Rightarrow> icmp_Message" where
  "icmp_txMsg W dst =
     \<lparr>Type = (if Is4 (Addr dst) then ipv4_ICMPTypeEcho else ipv6_ICMPTypeEchoRequest),
      Code = 0, Checksum = 0, Body = Echo (icmp_txBody W)\<rparr>"

definition icmp_to :: "netip_AddrPort \<Rightarrow> unix_Sockaddr" where
  "icmp_to dst =
     (if Is4 (Addr dst) then SockaddrInet4 0 (copy_into 4 (AsSlice (Addr dst)))
      else SockaddrInet6 0 (copy_into 16 (AsSlice (Addr dst))))"

text \<open>
  The loop over the error queue (kernel source only). \<open>buflen\<close> is \<^verbatim>\<open>len(buf)\<close>: the
  loop re-slices \<^verbatim>\<open>buf = buf[:n]\<close> on every pass, so the next read is into a buffer of
  \<open>n\<close> bytes. The result is the transmit timestamp.
\<close>

fun measureICMPRTT_txLoop ::
  "extern \<Rightarrow> world \<Rightarrow> icmp_Message \<Rightarrow> icmp_Echo \<Rightarrow> bytes \<Rightarrow> nat \<Rightarrow> recvmsg list \<Rightarrow> go_error + time_Time" where
  "measureICMPRTT_txLoop X W txMsg txBody txBuf buflen [] =
     Inl (Errorf_v ''recvmsg (MSG_ERRQUEUE) error: '' (Error (deadline_err W)))"
| "measureICMPRTT_txLoop X W txMsg txBody txBuf buflen (Recv_err err # q) =
     Inl (Errorf_v ''recvmsg (MSG_ERRQUEUE) error: '' (Error err))"
| "measureICMPRTT_txLoop X W txMsg txBody txBuf buflen (Recv_ok dgram ctl # q) =
     (let buf = take buflen dgram; n = length buf in
      if n < length txBuf then measureICMPRTT_txLoop X W txMsg txBody txBuf n q
      else
        case icmp_ParseMessage X (Protocol (Type txMsg)) (drop (length buf - length txBuf) buf) of
          Inl err \<Rightarrow> measureICMPRTT_txLoop X W txMsg txBody txBuf n q
        | Inr txLoopedMsg \<Rightarrow>
            (case Body txLoopedMsg of
               OtherBody b \<Rightarrow> measureICMPRTT_txLoop X W txMsg txBody txBuf n q
             | Echo txLoopedBody \<Rightarrow>
                 if Seq txLoopedBody \<noteq> Seq txBody \<or> Code txLoopedMsg \<noteq> Code txMsg
                    \<or> Type txLoopedMsg \<noteq> Type txLoopedMsg
                    \<or> Data txLoopedBody \<noteq> Data txBody
                 then measureICMPRTT_txLoop X W txMsg txBody txBuf n q
                 else
                   (case parseTimestampFromCmsgs X (take 1024 ctl) of
                      Inl err \<Rightarrow> Inl (Errorf_v ''failed to get tx timestamp: '' (Error err))
                    | Inr txAt \<Rightarrow> Inr txAt)))"

text \<open>
  The loop that waits for the reply. \<open>k\<close> counts the calls of \<^verbatim>\<open>time.Now()\<close> made so
  far: the loop samples the clock after every receive that succeeds.
\<close>

fun measureICMPRTT_rxLoop ::
  "extern \<Rightarrow> world \<Rightarrow> timestampSource \<Rightarrow> icmp_Message \<Rightarrow> icmp_Echo \<Rightarrow> time_Time \<Rightarrow> nat
   \<Rightarrow> recvmsg list \<Rightarrow> go_error + time_Duration" where
  "measureICMPRTT_rxLoop X W source txMsg txBody txAt k [] =
     Inl (Errorf_w ''recvmsg error: '' (deadline_err W))"
| "measureICMPRTT_rxLoop X W source txMsg txBody txAt k (Recv_err err # q) =
     Inl (Errorf_w ''recvmsg error: '' err)"
| "measureICMPRTT_rxLoop X W source txMsg txBody txAt k (Recv_ok dgram ctl # q) =
     (let rxBuf = take 1024 dgram; rxAt = time_Now W k in
      case icmp_ParseMessage X (Protocol (Type txMsg)) rxBuf of
        Inl err \<Rightarrow> measureICMPRTT_rxLoop X W source txMsg txBody txAt (Suc k) q
      | Inr rxMsg \<Rightarrow>
          if (if Type txMsg = ipv4_ICMPTypeEcho then Type rxMsg \<noteq> ipv4_ICMPTypeEchoReply
              else Type rxMsg \<noteq> ipv6_ICMPTypeEchoReply)
          then measureICMPRTT_rxLoop X W source txMsg txBody txAt (Suc k) q
          else if Code rxMsg \<noteq> Code txMsg
          then measureICMPRTT_rxLoop X W source txMsg txBody txAt (Suc k) q
          else
            (case Body rxMsg of
               OtherBody b \<Rightarrow> measureICMPRTT_rxLoop X W source txMsg txBody txAt (Suc k) q
             | Echo rxBody \<Rightarrow>
                 if Seq rxBody \<noteq> Seq txBody \<or> Data rxBody \<noteq> Data txBody
                 then measureICMPRTT_rxLoop X W source txMsg txBody txAt (Suc k) q
                 else if source = timestampSourceKernel
                 then (case parseTimestampFromCmsgs X (take 1024 ctl) of
                         Inl err \<Rightarrow> Inl (Errorf_v ''failed to get rx timestamp: '' (Error err))
                       | Inr rxAt' \<Rightarrow> Inr (Sub rxAt' txAt))
                 else Inr (Sub rxAt txAt)))"

text \<open>
  The result is the list of datagrams handed to \<^verbatim>\<open>Sendto\<close> and the Go result
  \<^verbatim>\<open>(rtt, err)\<close>, where \<open>Inl err\<close> stands for \<^verbatim>\<open>(0, err)\<close>.
\<close>

definition measureICMPRTT ::
  "extern \<Rightarrow> world \<Rightarrow> timestampSource \<Rightarrow> conn \<Rightarrow> string \<Rightarrow> netip_AddrPort
   \<Rightarrow> (bytes \<times> unix_Sockaddr) list \<times> (go_error + time_Duration)" where
  "measureICMPRTT X W source c hostname dst =
     (case c of
        OtherConn T \<Rightarrow> ([], Inl (Errorf_v ''conn of unexpected type: '' T))
      | SocketConn sconn \<Rightarrow>
          (let txBody = icmp_txBody W; txMsg = icmp_txMsg W dst; to = icmp_to dst in
           case icmp_Marshal X txMsg of
             Inl err \<Rightarrow> ([], Inl err)
           | Inr txBuf \<Rightarrow>
               (let txAt = time_Now W 0 in
                case Sendto_result W txBuf to of
                  Some err \<Rightarrow> ([(txBuf, to)], Inl (Errorf_v ''sendto error: '' (Error err)))
                | None \<Rightarrow>
                    (case (if source = timestampSourceKernel
                           then measureICMPRTT_txLoop X W txMsg txBody txBuf 1024 (errqueue W)
                           else Inr txAt) of
                       Inl err \<Rightarrow> ([(txBuf, to)], Inl err)
                     | Inr txAt' \<Rightarrow>
                         ([(txBuf, to)],
                          measureICMPRTT_rxLoop X W source txMsg txBody txAt' 1 (rxqueue W))))))"

definition mkICMPMeasureFn ::
  "extern \<Rightarrow> world \<Rightarrow> timestampSource \<Rightarrow> conn \<Rightarrow> string \<Rightarrow> netip_AddrPort
   \<Rightarrow> (bytes \<times> unix_Sockaddr) list \<times> (go_error + time_Duration)" where
  "mkICMPMeasureFn X W source = (\<lambda>c hostname dst. measureICMPRTT X W source c hostname dst)"

section \<open>STUN measurement with kernel timestamps\<close>

definition stun_to :: "netip_AddrPort \<Rightarrow> unix_Sockaddr" where
  "stun_to dst =
     (if Is4 (Addr dst) then SockaddrInet4 (Port dst) (copy_into 4 (AsSlice (Addr dst)))
      else SockaddrInet6 (Port dst) (copy_into 16 (AsSlice (Addr dst))))"

text \<open>
  The loop over the error queue. It returns the transmit timestamp and \<^verbatim>\<open>len(buf)\<close>
  as the last pass left it, since the reply loop reads into the same \<^verbatim>\<open>buf\<close>.
\<close>

fun measureSTUNRTTKernel_txLoop ::
  "extern \<Rightarrow> world \<Rightarrow> bytes \<Rightarrow> nat \<Rightarrow> recvmsg list \<Rightarrow> go_error + time_Time \<times> nat" where
  "measureSTUNRTTKernel_txLoop X W req buflen [] =
     Inl (Errorf_v ''recvmsg (MSG_ERRQUEUE) error: '' (Error (deadline_err W)))"
| "measureSTUNRTTKernel_txLoop X W req buflen (Recv_err err # q) =
     Inl (Errorf_v ''recvmsg (MSG_ERRQUEUE) error: '' (Error err))"
| "measureSTUNRTTKernel_txLoop X W req buflen (Recv_ok dgram ctl # q) =
     (let buf = take buflen dgram; n = length buf in
      if n < length req \<or> req \<noteq> drop (length buf - length req) buf
      then measureSTUNRTTKernel_txLoop X W req n q
      else
        (case parseTimestampFromCmsgs X (take 1024 ctl) of
           Inl err \<Rightarrow> Inl (Errorf_v ''failed to get tx timestamp: '' (Error err))
         | Inr txAt \<Rightarrow> Inr (txAt, n)))"

fun measureSTUNRTTKernel_rxLoop ::
  "extern \<Rightarrow> world \<Rightarrow> stun_TxID \<Rightarrow> time_Time \<Rightarrow> nat \<Rightarrow> recvmsg list \<Rightarrow> go_error + time_Duration" where
  "measureSTUNRTTKernel_rxLoop X W txID txAt buflen [] =
     Inl (Errorf_w ''recvmsg error: '' (deadline_err W))"
| "measureSTUNRTTKernel_rxLoop X W txID txAt buflen (Recv_err err # q) =
     Inl (Errorf_w ''recvmsg error: '' err)"
| "measureSTUNRTTKernel_rxLoop X W txID txAt buflen (Recv_ok dgram ctl # q) =
     (case stun_ParseResponse X (take buflen dgram) of
        Inl err \<Rightarrow> measureSTUNRTTKernel_rxLoop X W txID txAt buflen q
      | Inr (gotTxID, addr) \<Rightarrow>
          if gotTxID \<noteq> txID then measureSTUNRTTKernel_rxLoop X W txID txAt buflen q
          else
            (case parseTimestampFromCmsgs X (take 1024 ctl) of
               Inl err \<Rightarrow> Inl (Errorf_v ''failed to get rx timestamp: '' (Error err))
             | Inr rxAt \<Rightarrow> Inr (Sub rxAt txAt)))"

definition measureSTUNRTTKernel ::
  "extern \<Rightarrow> world \<Rightarrow> conn \<Rightarrow> string \<Rightarrow> netip_AddrPort
   \<Rightarrow> (bytes \<times> unix_Sockaddr) list \<times> (go_error + time_Duration)" where
  "measureSTUNRTTKernel X W c hostname dst =
     (case c of
        OtherConn T \<Rightarrow> ([], Inl (Errorf_v ''conn of unexpected type: '' T))
      | SocketConn sconn \<Rightarrow>
          (let to = stun_to dst; txID = new_TxID W; req = stun_Request X txID in
           case Sendto_result W req to of
             Some err \<Rightarrow> ([(req, to)], Inl (Errorf_v ''sendto error: '' (Error err)))
           | None \<Rightarrow>
               (case measureSTUNRTTKernel_txLoop X W req 1024 (errqueue W) of
                  Inl err \<Rightarrow> ([(req, to)], Inl err)
                | Inr (txAt, buflen) \<Rightarrow>
                    ([(req, to)], measureSTUNRTTKernel_rxLoop X W txID txAt buflen (rxqueue W)))))"

section \<open>Predicates used to state the properties\<close>

text \<open>
  A control message that carries a timestamp: socket level, the new timestamping type, a
  payload of 16 bytes or more.
\<close>

definition is_timestamp_cmsg :: "unix_SocketControlMessage \<Rightarrow> bool" where
  "is_timestamp_cmsg m \<longleftrightarrow>
     Header_Level m = SOL_SOCKET \<and> Header_Type m = SO_TIMESTAMPING_NEW \<and> 16 \<le> length (Cmsg_Data m)"

text \<open>The echo-reply type that answers an echo-request type.\<close>

definition echo_reply_counterpart :: "icmp_Type \<Rightarrow> icmp_Type option" where
  "echo_reply_counterpart t =
     (if t = ipv4_ICMPTypeEcho then Some ipv4_ICMPTypeEchoReply
      else if t = ipv6_ICMPTypeEchoRequest then Some ipv6_ICMPTypeEchoReply
      else None)"

text \<open>
  A received datagram answers the transmitted echo request: it parses, its type is the
  echo-reply counterpart, its code is the transmitted one, its body is an echo body, and
  sequence number and payload are the transmitted ones.
\<close>

definition icmp_reply_matches :: "extern \<Rightarrow> icmp_Message \<Rightarrow> icmp_Echo \<Rightarrow> bytes \<Rightarrow> bool" where
  "icmp_reply_matches X txMsg txBody b =
     (case icmp_ParseMessage X (Protocol (Type txMsg)) b of
        Inl err \<Rightarrow> False
      | Inr rxMsg \<Rightarrow>
          Some (Type rxMsg) = echo_reply_counterpart (Type txMsg) \<and> Code rxMsg = Code txMsg
          \<and> (case Body rxMsg of
                OtherBody x \<Rightarrow> False
              | Echo rxBody \<Rightarrow> Seq rxBody = Seq txBody \<and> Data rxBody = Data txBody))"

text \<open>A received datagram parses as a STUN response that carries the transaction ID.\<close>

definition stun_response_matches :: "extern \<Rightarrow> stun_TxID \<Rightarrow> bytes \<Rightarrow> bool" where
  "stun_response_matches X txID b =
     (case stun_ParseResponse X b of
        Inl err \<Rightarrow> False
      | Inr (gotTxID, addr) \<Rightarrow> gotTxID = txID)"

text \<open>Where a timestamp comes from: the wall clock of the process, or a control message.\<close>

fun timestamp_origin :: "time_Time \<Rightarrow> timestampSource" where
  "timestamp_origin (Wallclock t) = timestampSourceUserspace"
| "timestamp_origin (time_Unix sec ns) = timestampSourceKernel"

section \<open>A sample library and sample environments\<close>

text \<open>
  The theorems hold for every library and environment. The examples below instantiate
  them with a small library: ICMP messages in the layout of RFC 792 (type, code, two
  checksum bytes, then for an echo two bytes of identifier, two of sequence number and the
  payload), one control message per buffer (a header of 16 bytes with the level in byte 8
  and the type in byte 12, then the data), and STUN packets with the 20-byte header of
  RFC 5389 (the transaction ID in bytes 8 to 19).
\<close>

fun type_number :: "icmp_Type \<Rightarrow> nat" where
  "type_number (ipv4_ICMPType t) = t"
| "type_number (ipv6_ICMPType t) = t"

definition sample_ParseMessage :: "int \<Rightarrow> bytes \<Rightarrow> go_error + icmp_Message" where
  "sample_ParseMessage p b =
     (if length b < 8 then Inl (errors_New ''message too short'')
      else Inr \<lparr>Type = (if p = 58 then ipv6_ICMPType (unat (b ! 0)) else ipv4_ICMPType (unat (b ! 0))),
                Code = uint (b ! 1),
                Checksum = 256 * uint (b ! 2) + uint (b ! 3),
                Body = (if unat (b ! 0) \<in> {0, 8, 128, 129}
                        then Echo \<lparr>ID = 256 * uint (b ! 4) + uint (b ! 5),
                                   Seq = 256 * uint (b ! 6) + uint (b ! 7),
                                   Data = drop 8 b\<rparr>
                        else OtherBody (drop 4 b))\<rparr>)"

definition sample_Marshal :: "icmp_Message \<Rightarrow> go_error + bytes" where
  "sample_Marshal m =
     Inr ([of_nat (type_number (Type m)), of_int (Code m), 0, 0] @
          (case Body m of
             OtherBody b \<Rightarrow> b
           | Echo e \<Rightarrow>
               [of_int (ID e div 256), of_int (ID e), of_int (Seq e div 256), of_int (Seq e)]
               @ Data e))"

definition sample_ParseSocketControlMessage ::
  "bytes \<Rightarrow> go_error + unix_SocketControlMessage list" where
  "sample_ParseSocketControlMessage oob =
     (if oob = [] then Inr []
      else if length oob < 16 then Inl (errors_New ''invalid argument'')
      else Inr [\<lparr>Header_Level = uint (oob ! 8), Header_Type = uint (oob ! 12),
                 Cmsg_Data = drop 16 oob\<rparr>])"

definition sample_Request :: "stun_TxID \<Rightarrow> bytes" where
  "sample_Request txID = [0, 1, 0, 0, 33, 18, 164, 66] @ txID"

definition sample_ParseResponse :: "bytes \<Rightarrow> go_error + stun_TxID \<times> netip_AddrPort" where
  "sample_ParseResponse b =
     (if length b < 20 \<or> take 2 b \<noteq> [1, 1] then Inl (errors_New ''malformed STUN packet'')
      else Inr (take 12 (drop 8 b), \<lparr>Addr = Addr_zero, Port = 0\<rparr>))"

definition sample_extern :: extern where
  "sample_extern =
     \<lparr>NativeEndian = LittleEndian,
      unix_ParseSocketControlMessage = sample_ParseSocketControlMessage,
      icmp_ParseMessage = sample_ParseMessage,
      icmp_Marshal = sample_Marshal,
      stun_Request = sample_Request,
      stun_ParseResponse = sample_ParseResponse\<rparr>"

text \<open>
  A control buffer of the sample library that carries the timestamp of 1700000000 seconds
  and \<open>ns\<close> nanoseconds, for \<open>ns\<close> given by its four low bytes, in little-endian order.
\<close>

definition sample_ts_oob :: "bytes \<Rightarrow> bytes" where
  "sample_ts_oob ns =
     [32, 0, 0, 0, 0, 0, 0, 0, 1, 0, 0, 0, 65, 0, 0, 0] @
     [0, 241, 83, 101, 0, 0, 0, 0] @ ns @ [0, 0, 0, 0]"

text \<open>
  An echo message of type \<open>t\<close> with sequence number \<open>s\<close>, identifier and code 0 and the
  payload of the probe, in the layout of the sample library.
\<close>

definition sample_echo :: "nat \<Rightarrow> int \<Rightarrow> bytes" where
  "sample_echo t s =
     [of_nat t, 0, 0, 0, 0, 0, of_int (s div 256), of_int s] @ map of_char ''stunstamp''"

definition sample_response :: "stun_TxID \<Rightarrow> bytes" where
  "sample_response txID = [1, 1, 0, 0, 33, 18, 164, 66] @ txID"

definition sample_dst :: netip_AddrPort where
  "sample_dst = \<lparr>Addr = Addr_v4 [192, 0, 2, 1], Port = 3478\<rparr>"

definition sample_conn :: conn where
  "sample_conn =
     SocketConn \<lparr>conn_domain = 2, conn_type = 2, conn_proto = 1, conn_name = ''icmp'',
                 bound = None, sockopts = []\<rparr>"

text \<open>
  An ICMP probe to an IPv4 address with sequence number 70000 mod 65535 = 4465. After
  the deadline a receive fails with an error that wraps the context's. The error
  queue holds the looped packet (two bytes of link header, then the request) with a
  transmit timestamp of 1 ms; the socket then delivers a stale reply (sequence number 7)
  and the reply of this probe, with a receive timestamp of 21 ms.
\<close>

definition sample_world :: world where
  "sample_world =
     \<lparr>rand_src = 70000,
      wall = (\<lambda>k. 1000 + 20 * int k),
      new_TxID = [1, 2, 3, 4, 5, 6, 7, 8, 9, 10, 11, 12],
      Sendto_result = (\<lambda>b to. None),
      deadline_err = Errorf_w ''recvmsg: '' context_DeadlineExceeded,
      errqueue = [Recv_ok ([222, 173] @ sample_echo 8 4465) (sample_ts_oob [64, 66, 15, 0])],
      rxqueue = [Recv_ok (sample_echo 0 7) (sample_ts_oob [64, 66, 15, 0]),
                 Recv_ok (sample_echo 0 4465) (sample_ts_oob [64, 111, 64, 1])]\<rparr>"

text \<open>
  A STUN probe: the looped request, then a well-formed response to another transaction
  and the response to this one.
\<close>

definition sample_stun_world :: world where
  "sample_stun_world =
     sample_world
       \<lparr>errqueue := [Recv_ok ([222, 173] @ sample_Request [1, 2, 3, 4, 5, 6, 7, 8, 9, 10, 11, 12])
                               (sample_ts_oob [64, 66, 15, 0])],
        rxqueue := [Recv_ok (sample_response [9, 9, 9, 9, 9, 9, 9, 9, 9, 9, 9, 9])
                            (sample_ts_oob [64, 66, 15, 0]),
                    Recv_ok (sample_response [1, 2, 3, 4, 5, 6, 7, 8, 9, 10, 11, 12])
                            (sample_ts_oob [64, 111, 64, 1])]\<rparr>"

definition sample_sys :: sys where
  "sample_sys = \<lparr>socket_err = None, bind_err = None, setsockopt_err = None\<rparr>"

text \<open>Environments in which a call fails.\<close>

definition sample_world_send_fails :: world where
  "sample_world_send_fails =
     sample_world\<lparr>Sendto_result := (\<lambda>b to. Some (errors_New ''network is unreachable''))\<rparr>"

definition sample_sys_no_timestamping :: sys where
  "sample_sys_no_timestamping =
     sample_sys\<lparr>setsockopt_err := Some (errors_New ''operation not permitted'')\<rparr>"

section \<open>Lemmas\<close>

lemmas sample_defs =
  sample_extern_def sample_world_def sample_stun_world_def sample_dst_def sample_conn_def
  sample_echo_def sample_response_def sample_Request_def sample_ParseResponse_def
  sample_ParseMessage_def sample_Marshal_def sample_ParseSocketControlMessage_def
  sample_ts_oob_def sample_sys_def sample_world_send_fails_def sample_sys_no_timestamping_def

lemmas model_defs =
  measureICMPRTT_def measureSTUNRTTKernel_def icmp_txMsg_def icmp_txBody_def icmp_to_def
  stun_to_def rand_Int32N_def math_MaxUint16_def time_Now_def parseTimestampFromCmsgs_def
  ipv4_ICMPTypeEcho_def ipv4_ICMPTypeEchoReply_def ipv6_ICMPTypeEchoRequest_def
  ipv6_ICMPTypeEchoReply_def SOL_SOCKET_def SO_TIMESTAMPING_NEW_def LittleEndian_Uint64_def
  copy_into_def Let_def

lemmas spec_defs =
  is_timestamp_cmsg_def echo_reply_counterpart_def icmp_reply_matches_def
  stun_response_matches_def

lemmas factory_defs =
  getUDPConnKernelTimestamp_def getICMPConn_def socket_Socket_def Bind_def SetsockoptInt_def
  AF_INET_def AF_INET6_def SOCK_DGRAM_def IPPROTO_ICMP_def IPPROTO_UDP_def IPPROTO_ICMPV6_def
  timestampingFlags_def SOF_TIMESTAMPING_TX_SOFTWARE_def SOF_TIMESTAMPING_RX_SOFTWARE_def
  SOF_TIMESTAMPING_SOFTWARE_def

text \<open>The scan of the control messages stops at the first one that carries a timestamp.\<close>

lemma scan_cmsgs_find:
  "scan_cmsgs bo msgs =
     (case find is_timestamp_cmsg msgs of
        None \<Rightarrow> Inl (errors_New ''failed to parse timestamp from cmsgs'')
      | Some m \<Rightarrow> Inr (time_Unix (sint (NativeEndian_Uint64 bo (take 8 (Cmsg_Data m))))
                               (sint (NativeEndian_Uint64 bo (take 8 (drop 8 (Cmsg_Data m)))))))"
  by (induction msgs) (simp_all add: is_timestamp_cmsg_def)

lemma parseTimestampFromCmsgs_origin:
  "parseTimestampFromCmsgs X oob = Inr t \<Longrightarrow> timestamp_origin t = timestampSourceKernel"
  by (auto simp: parseTimestampFromCmsgs_def scan_cmsgs_find split: sum.splits option.splits)

subsection \<open>The reply loops, one datagram at a time\<close>

lemma icmp_txMsg_counterpart:
  "echo_reply_counterpart (Type (icmp_txMsg W dst)) =
     Some (if Type (icmp_txMsg W dst) = ipv4_ICMPTypeEcho then ipv4_ICMPTypeEchoReply
           else ipv6_ICMPTypeEchoReply)"
  by (simp add: echo_reply_counterpart_def icmp_txMsg_def)

lemma icmp_rxLoop_discard:
  "\<not> icmp_reply_matches X (icmp_txMsg W' dst) txBody (take 1024 dgram) \<Longrightarrow>
   measureICMPRTT_rxLoop X W source (icmp_txMsg W' dst) txBody txAt k (Recv_ok dgram ctl # q) =
   measureICMPRTT_rxLoop X W source (icmp_txMsg W' dst) txBody txAt (Suc k) q"
  by (auto simp: icmp_reply_matches_def icmp_txMsg_counterpart Let_def
           split: sum.splits icmp_MessageBody.splits if_splits)

lemma icmp_rxLoop_accept:
  "icmp_reply_matches X (icmp_txMsg W' dst) txBody (take 1024 dgram) \<Longrightarrow>
   measureICMPRTT_rxLoop X W source (icmp_txMsg W' dst) txBody txAt k (Recv_ok dgram ctl # q) =
     (if source = timestampSourceKernel
      then (case parseTimestampFromCmsgs X (take 1024 ctl) of
              Inl err \<Rightarrow> Inl (Errorf_v ''failed to get rx timestamp: '' (Error err))
            | Inr rxAt \<Rightarrow> Inr (Sub rxAt txAt))
      else Inr (Sub (time_Now W k) txAt))"
  by (auto simp: icmp_reply_matches_def icmp_txMsg_counterpart Let_def
           split: sum.splits icmp_MessageBody.splits if_splits)

lemma icmp_rxLoop_skip_prefix:
  "\<forall>r \<in> set pre. \<exists>d c. r = Recv_ok d c
       \<and> \<not> icmp_reply_matches X (icmp_txMsg W' dst) txBody (take 1024 d) \<Longrightarrow>
   measureICMPRTT_rxLoop X W source (icmp_txMsg W' dst) txBody txAt k (pre @ q) =
   measureICMPRTT_rxLoop X W source (icmp_txMsg W' dst) txBody txAt (k + length pre) q"
proof (induction pre arbitrary: k)
  case Nil
  then show ?case by simp
next
  case (Cons r pre)
  then obtain d c where r: "r = Recv_ok d c"
    and nm: "\<not> icmp_reply_matches X (icmp_txMsg W' dst) txBody (take 1024 d)" by auto
  from Cons.prems have rest: "\<forall>r \<in> set pre. \<exists>d c. r = Recv_ok d c
       \<and> \<not> icmp_reply_matches X (icmp_txMsg W' dst) txBody (take 1024 d)"
    by simp
  show ?case
    unfolding r append_Cons icmp_rxLoop_discard [OF nm] Cons.IH [OF rest] by simp
qed

lemma stun_rxLoop_discard:
  "\<not> stun_response_matches X txID (take buflen dgram) \<Longrightarrow>
   measureSTUNRTTKernel_rxLoop X W txID txAt buflen (Recv_ok dgram ctl # q) =
   measureSTUNRTTKernel_rxLoop X W txID txAt buflen q"
  by (auto simp: stun_response_matches_def split: sum.splits)

lemma stun_rxLoop_accept:
  "stun_response_matches X txID (take buflen dgram) \<Longrightarrow>
   measureSTUNRTTKernel_rxLoop X W txID txAt buflen (Recv_ok dgram ctl # q) =
     (case parseTimestampFromCmsgs X (take 1024 ctl) of
        Inl err \<Rightarrow> Inl (Errorf_v ''failed to get rx timestamp: '' (Error err))
      | Inr rxAt \<Rightarrow> Inr (Sub rxAt txAt))"
  by (auto simp: stun_response_matches_def split: sum.splits)

lemma stun_rxLoop_skip_prefix:
  "\<forall>r \<in> set pre. \<exists>d c. r = Recv_ok d c \<and> \<not> stun_response_matches X txID (take buflen d) \<Longrightarrow>
   measureSTUNRTTKernel_rxLoop X W txID txAt buflen (pre @ q) =
   measureSTUNRTTKernel_rxLoop X W txID txAt buflen q"
proof (induction pre)
  case Nil
  then show ?case by simp
next
  case (Cons r pre)
  then obtain d c where r: "r = Recv_ok d c"
    and nm: "\<not> stun_response_matches X txID (take buflen d)" by auto
  from Cons have "measureSTUNRTTKernel_rxLoop X W txID txAt buflen (pre @ q) =
     measureSTUNRTTKernel_rxLoop X W txID txAt buflen q" by simp
  then show ?case
    unfolding r append_Cons stun_rxLoop_discard [OF nm] .
qed

text \<open>How the two functions reach their reply loops.\<close>

lemma measureICMPRTT_reaches_rxLoop:
  "icmp_Marshal X (icmp_txMsg W dst) = Inr txBuf \<Longrightarrow>
   Sendto_result W txBuf (icmp_to dst) = None \<Longrightarrow>
   (if source = timestampSourceKernel
    then measureICMPRTT_txLoop X W (icmp_txMsg W dst) (icmp_txBody W) txBuf 1024 (errqueue W)
    else Inr (time_Now W 0)) = Inr txAt \<Longrightarrow>
   snd (measureICMPRTT X W source (SocketConn sc) hostname dst) =
     measureICMPRTT_rxLoop X W source (icmp_txMsg W dst) (icmp_txBody W) txAt 1 (rxqueue W)"
  by (simp add: measureICMPRTT_def Let_def)

lemma measureSTUNRTTKernel_reaches_rxLoop:
  "Sendto_result W (stun_Request X (new_TxID W)) (stun_to dst) = None \<Longrightarrow>
   measureSTUNRTTKernel_txLoop X W (stun_Request X (new_TxID W)) 1024 (errqueue W) = Inr (txAt, n) \<Longrightarrow>
   snd (measureSTUNRTTKernel X W (SocketConn sc) hostname dst) =
     measureSTUNRTTKernel_rxLoop X W (new_TxID W) txAt n (rxqueue W)"
  by (simp add: measureSTUNRTTKernel_def Let_def)

subsection \<open>Where the timestamps of a successful measurement come from\<close>

lemma icmp_txLoop_from_cmsg:
  "measureICMPRTT_txLoop X W txMsg txBody txBuf buflen q = Inr tx \<Longrightarrow>
   \<exists>dg c. Recv_ok dg c \<in> set q \<and> parseTimestampFromCmsgs X (take 1024 c) = Inr tx"
proof (induction q arbitrary: buflen)
  case Nil
  then show ?case by simp
next
  case (Cons r q)
  show ?case
  proof (cases r)
    case (Recv_err e)
    with Cons.prems show ?thesis by simp
  next
    case (Recv_ok dg c)
    show ?thesis
    proof (cases "measureICMPRTT_txLoop X W txMsg txBody txBuf buflen (r # q) =
                  measureICMPRTT_txLoop X W txMsg txBody txBuf (length (take buflen dg)) q")
      case True
      with Cons.prems Cons.IH show ?thesis by fastforce
    next
      case False
      with Cons.prems Recv_ok have "parseTimestampFromCmsgs X (take 1024 c) = Inr tx"
        by (auto simp: Let_def split: sum.splits icmp_MessageBody.splits if_splits)
      with Recv_ok show ?thesis by auto
    qed
  qed
qed

lemma stun_txLoop_from_cmsg:
  "measureSTUNRTTKernel_txLoop X W req buflen q = Inr (tx, n) \<Longrightarrow>
   \<exists>dg c. Recv_ok dg c \<in> set q \<and> parseTimestampFromCmsgs X (take 1024 c) = Inr tx"
proof (induction q arbitrary: buflen)
  case Nil
  then show ?case by simp
next
  case (Cons r q)
  show ?case
  proof (cases r)
    case (Recv_err e)
    with Cons.prems show ?thesis by simp
  next
    case (Recv_ok dg c)
    show ?thesis
    proof (cases "measureSTUNRTTKernel_txLoop X W req buflen (r # q) =
                  measureSTUNRTTKernel_txLoop X W req (length (take buflen dg)) q")
      case True
      with Cons.prems Cons.IH show ?thesis by fastforce
    next
      case False
      with Cons.prems Recv_ok have "parseTimestampFromCmsgs X (take 1024 c) = Inr tx"
        by (auto simp: Let_def split: sum.splits if_splits)
      with Recv_ok show ?thesis by auto
    qed
  qed
qed

lemma icmp_rxLoop_kernel_from_cmsg:
  "measureICMPRTT_rxLoop X W timestampSourceKernel txMsg txBody txAt k q = Inr d \<Longrightarrow>
   \<exists>dg c rx. Recv_ok dg c \<in> set q \<and> parseTimestampFromCmsgs X (take 1024 c) = Inr rx
             \<and> d = Sub rx txAt"
proof (induction q arbitrary: k)
  case Nil
  then show ?case by simp
next
  case (Cons r q)
  show ?case
  proof (cases r)
    case (Recv_err e)
    with Cons.prems show ?thesis by simp
  next
    case (Recv_ok dg c)
    show ?thesis
    proof (cases "measureICMPRTT_rxLoop X W timestampSourceKernel txMsg txBody txAt k (r # q) =
                  measureICMPRTT_rxLoop X W timestampSourceKernel txMsg txBody txAt (Suc k) q")
      case True
      with Cons.prems Cons.IH show ?thesis by fastforce
    next
      case False
      with Cons.prems Recv_ok
      have "\<exists>rx. parseTimestampFromCmsgs X (take 1024 c) = Inr rx \<and> d = Sub rx txAt"
        by (auto simp: Let_def split: sum.splits icmp_MessageBody.splits if_splits)
      with Recv_ok show ?thesis by auto
    qed
  qed
qed

lemma icmp_rxLoop_userspace_from_clock:
  "source \<noteq> timestampSourceKernel \<Longrightarrow>
   measureICMPRTT_rxLoop X W source txMsg txBody txAt k q = Inr d \<Longrightarrow>
   \<exists>i < length q. (\<exists>dg c. q ! i = Recv_ok dg c) \<and> d = Sub (time_Now W (k + i)) txAt"
proof (induction q arbitrary: k)
  case Nil
  then show ?case by simp
next
  case (Cons r q)
  show ?case
  proof (cases r)
    case (Recv_err e)
    with Cons.prems show ?thesis by simp
  next
    case (Recv_ok dg c)
    show ?thesis
    proof (cases "measureICMPRTT_rxLoop X W source txMsg txBody txAt k (r # q) =
                  measureICMPRTT_rxLoop X W source txMsg txBody txAt (Suc k) q")
      case True
      with Cons.prems Cons.IH [of "Suc k"]
      obtain i where "i < length q" "\<exists>dg c. q ! i = Recv_ok dg c"
        "d = Sub (time_Now W (Suc k + i)) txAt" by auto
      then have "Suc i < length (r # q) \<and> (\<exists>dg c. (r # q) ! Suc i = Recv_ok dg c)
                 \<and> d = Sub (time_Now W (k + Suc i)) txAt" by simp
      then show ?thesis by blast
    next
      case False
      with Cons.prems Recv_ok have "d = Sub (time_Now W k) txAt"
        by (auto simp: Let_def split: sum.splits icmp_MessageBody.splits if_splits)
      with Recv_ok have "0 < length (r # q) \<and> (\<exists>dg c. (r # q) ! 0 = Recv_ok dg c)
                 \<and> d = Sub (time_Now W (k + 0)) txAt" by simp
      then show ?thesis by blast
    qed
  qed
qed

lemma stun_rxLoop_from_cmsg:
  "measureSTUNRTTKernel_rxLoop X W txID txAt buflen q = Inr d \<Longrightarrow>
   \<exists>dg c rx. Recv_ok dg c \<in> set q \<and> parseTimestampFromCmsgs X (take 1024 c) = Inr rx
             \<and> d = Sub rx txAt"
proof (induction q)
  case Nil
  then show ?case by simp
next
  case (Cons r q)
  show ?case
  proof (cases r)
    case (Recv_err e)
    with Cons.prems show ?thesis by simp
  next
    case (Recv_ok dg c)
    show ?thesis
    proof (cases "measureSTUNRTTKernel_rxLoop X W txID txAt buflen (r # q) =
                  measureSTUNRTTKernel_rxLoop X W txID txAt buflen q")
      case True
      with Cons.prems Cons.IH show ?thesis by fastforce
    next
      case False
      with Cons.prems Recv_ok
      have "\<exists>rx. parseTimestampFromCmsgs X (take 1024 c) = Inr rx \<and> d = Sub rx txAt"
        by (auto simp: Let_def split: sum.splits if_splits)
      with Recv_ok show ?thesis by auto
    qed
  qed
qed

lemma measureICMPRTT_kernel_success:
  assumes "snd (measureICMPRTT X W timestampSourceKernel c hostname dst) = Inr d"
  shows "\<exists>rx tx dg1 c1 dg2 c2. d = Sub rx tx
           \<and> Recv_ok dg1 c1 \<in> set (errqueue W) \<and> parseTimestampFromCmsgs X (take 1024 c1) = Inr tx
           \<and> Recv_ok dg2 c2 \<in> set (rxqueue W) \<and> parseTimestampFromCmsgs X (take 1024 c2) = Inr rx"
proof -
  from assms obtain txBuf tx where
    tx: "measureICMPRTT_txLoop X W (icmp_txMsg W dst) (icmp_txBody W) txBuf 1024 (errqueue W) = Inr tx"
    and rx: "measureICMPRTT_rxLoop X W timestampSourceKernel (icmp_txMsg W dst) (icmp_txBody W)
               tx 1 (rxqueue W) = Inr d"
    by (auto simp: measureICMPRTT_def Let_def split: conn.splits sum.splits option.splits)
  from icmp_txLoop_from_cmsg [OF tx] icmp_rxLoop_kernel_from_cmsg [OF rx]
  show ?thesis by blast
qed

lemma measureICMPRTT_userspace_success:
  assumes "source \<noteq> timestampSourceKernel"
    and "snd (measureICMPRTT X W source c hostname dst) = Inr d"
  shows "\<exists>i < length (rxqueue W). (\<exists>dg c'. rxqueue W ! i = Recv_ok dg c')
           \<and> d = Sub (time_Now W (Suc i)) (time_Now W 0)"
proof -
  from assms have
    "measureICMPRTT_rxLoop X W source (icmp_txMsg W dst) (icmp_txBody W)
       (time_Now W 0) 1 (rxqueue W) = Inr d"
    by (auto simp: measureICMPRTT_def Let_def split: conn.splits sum.splits option.splits)
  from icmp_rxLoop_userspace_from_clock [OF assms(1) this]
  show ?thesis by simp
qed

lemma measureSTUNRTTKernel_success:
  assumes "snd (measureSTUNRTTKernel X W c hostname dst) = Inr d"
  shows "\<exists>rx tx dg1 c1 dg2 c2. d = Sub rx tx
           \<and> Recv_ok dg1 c1 \<in> set (errqueue W) \<and> parseTimestampFromCmsgs X (take 1024 c1) = Inr tx
           \<and> Recv_ok dg2 c2 \<in> set (rxqueue W) \<and> parseTimestampFromCmsgs X (take 1024 c2) = Inr rx"
proof -
  from assms obtain tx n where
    tx: "measureSTUNRTTKernel_txLoop X W (stun_Request X (new_TxID W)) 1024 (errqueue W) = Inr (tx, n)"
    and rx: "measureSTUNRTTKernel_rxLoop X W (new_TxID W) tx n (rxqueue W) = Inr d"
    by (auto simp: measureSTUNRTTKernel_def Let_def split: conn.splits sum.splits option.splits)
  from stun_txLoop_from_cmsg [OF tx] stun_rxLoop_from_cmsg [OF rx]
  show ?thesis by blast
qed

subsection \<open>Errors\<close>



lemma errors_Is_through_wrap: "errors_Is e target \<Longrightarrow> errors_Is (Errorf_w p e) target"
  by simp



section \<open>Theorems\<close>

text \<open>
  C1 (as amended). In the reply loop of \<open>measureICMPRTT\<close>, a received datagram that does not
  parse, or whose type is not the echo-reply counterpart of the transmitted type, or whose
  code, body kind, sequence number or payload differs from what was transmitted, is
  discarded and the loop goes on with the next receive. The first datagram that matches
  on all of these ends the wait whatever follows it: with the userspace source the result
  is the clock sample taken after that receive minus the transmit timestamp; with the
  kernel source it is the timestamp decoded from the datagram's control messages minus
  the transmit timestamp, and an error that does not wrap when that decoding fails. The
  function returns what the loop returns.
\<close>

theorem measureICMPRTT_rxLoop_first_match:
  "(\<not> icmp_reply_matches X (icmp_txMsg W dst) (icmp_txBody W) (take 1024 dgram) \<longrightarrow>
      measureICMPRTT_rxLoop X W source (icmp_txMsg W dst) (icmp_txBody W) txAt k
        (Recv_ok dgram ctl # q) =
      measureICMPRTT_rxLoop X W source (icmp_txMsg W dst) (icmp_txBody W) txAt (Suc k) q)
   \<and> ((\<forall>r \<in> set pre. \<exists>d c. r = Recv_ok d c
           \<and> \<not> icmp_reply_matches X (icmp_txMsg W dst) (icmp_txBody W) (take 1024 d))
        \<and> icmp_reply_matches X (icmp_txMsg W dst) (icmp_txBody W) (take 1024 dgram) \<longrightarrow>
      measureICMPRTT_rxLoop X W source (icmp_txMsg W dst) (icmp_txBody W) txAt k
        (pre @ Recv_ok dgram ctl # q) =
        (if source = timestampSourceKernel
         then (case parseTimestampFromCmsgs X (take 1024 ctl) of
                 Inl err \<Rightarrow> Inl (Errorf_v ''failed to get rx timestamp: '' (Error err))
               | Inr rxAt \<Rightarrow> Inr (Sub rxAt txAt))
         else Inr (Sub (time_Now W (k + length pre)) txAt)))
   \<and> (icmp_Marshal X (icmp_txMsg W dst) = Inr txBuf
        \<and> Sendto_result W txBuf (icmp_to dst) = None
        \<and> (if source = timestampSourceKernel
            then measureICMPRTT_txLoop X W (icmp_txMsg W dst) (icmp_txBody W) txBuf 1024 (errqueue W)
            else Inr (time_Now W 0)) = Inr txAt \<longrightarrow>
      snd (measureICMPRTT X W source (SocketConn sc) hostname dst) =
        measureICMPRTT_rxLoop X W source (icmp_txMsg W dst) (icmp_txBody W) txAt 1 (rxqueue W))"
proof (intro conjI impI)
  assume "\<not> icmp_reply_matches X (icmp_txMsg W dst) (icmp_txBody W) (take 1024 dgram)"
  then show "measureICMPRTT_rxLoop X W source (icmp_txMsg W dst) (icmp_txBody W) txAt k
        (Recv_ok dgram ctl # q) =
      measureICMPRTT_rxLoop X W source (icmp_txMsg W dst) (icmp_txBody W) txAt (Suc k) q"
    by (rule icmp_rxLoop_discard)
next
  assume "(\<forall>r \<in> set pre. \<exists>d c. r = Recv_ok d c
           \<and> \<not> icmp_reply_matches X (icmp_txMsg W dst) (icmp_txBody W) (take 1024 d))
        \<and> icmp_reply_matches X (icmp_txMsg W dst) (icmp_txBody W) (take 1024 dgram)"
  then have skipped: "\<forall>r \<in> set pre. \<exists>d c. r = Recv_ok d c
           \<and> \<not> icmp_reply_matches X (icmp_txMsg W dst) (icmp_txBody W) (take 1024 d)"
    and hit: "icmp_reply_matches X (icmp_txMsg W dst) (icmp_txBody W) (take 1024 dgram)"
    by blast+
  show "measureICMPRTT_rxLoop X W source (icmp_txMsg W dst) (icmp_txBody W) txAt k
        (pre @ Recv_ok dgram ctl # q) =
        (if source = timestampSourceKernel
         then (case parseTimestampFromCmsgs X (take 1024 ctl) of
                 Inl err \<Rightarrow> Inl (Errorf_v ''failed to get rx timestamp: '' (Error err))
               | Inr rxAt \<Rightarrow> Inr (Sub rxAt txAt))
         else Inr (Sub (time_Now W (k + length pre)) txAt))"
    unfolding icmp_rxLoop_skip_prefix [OF skipped] by (rule icmp_rxLoop_accept [OF hit])
next
  assume "icmp_Marshal X (icmp_txMsg W dst) = Inr txBuf
        \<and> Sendto_result W txBuf (icmp_to dst) = None
        \<and> (if source = timestampSourceKernel
            then measureICMPRTT_txLoop X W (icmp_txMsg W dst) (icmp_txBody W) txBuf 1024 (errqueue W)
            else Inr (time_Now W 0)) = Inr txAt"
  then show "snd (measureICMPRTT X W source (SocketConn sc) hostname dst) =
        measureICMPRTT_rxLoop X W source (icmp_txMsg W dst) (icmp_txBody W) txAt 1 (rxqueue W)"
    using measureICMPRTT_reaches_rxLoop [of X W dst txBuf source txAt sc hostname] by blast
qed

text \<open>
  The sample probe with the userspace source: the stale reply is skipped, the second
  datagram matches, and the result is the clock reading after the second receive minus the
  reading before the send.
\<close>

theorem measureICMPRTT_rxLoop_first_match_witness:
  "\<not> icmp_reply_matches sample_extern (icmp_txMsg sample_world sample_dst)
       (icmp_txBody sample_world) (take 1024 (sample_echo 0 7))
   \<and> icmp_reply_matches sample_extern (icmp_txMsg sample_world sample_dst)
       (icmp_txBody sample_world) (take 1024 (sample_echo 0 4465))
   \<and> snd (measureICMPRTT sample_extern sample_world timestampSourceUserspace sample_conn
            ''example.net'' sample_dst)
     = Inr (Sub (Wallclock 1040) (Wallclock 1000))
   \<and> measureICMPRTT_rxLoop sample_extern sample_world timestampSourceUserspace
       (icmp_txMsg sample_world sample_dst) (icmp_txBody sample_world) (Wallclock 1000) 1
       [Recv_ok (sample_echo 0 7) []]
     = Inl (Errorf_w ''recvmsg error: '' (deadline_err sample_world))"
proof -
  let ?sc = "\<lparr>conn_domain = 2, conn_type = 2, conn_proto = 1, conn_name = ''icmp'',
              bound = None, sockopts = []\<rparr>"
  let ?stale = "Recv_ok (sample_echo 0 7) (sample_ts_oob [64, 66, 15, 0])"
  have conn: "sample_conn = SocketConn ?sc"
    by (simp add: sample_conn_def)
  have stale: "\<not> icmp_reply_matches sample_extern (icmp_txMsg sample_world sample_dst)
       (icmp_txBody sample_world) (take 1024 (sample_echo 0 7))"
    by (simp add: spec_defs sample_defs model_defs)
  have good: "icmp_reply_matches sample_extern (icmp_txMsg sample_world sample_dst)
       (icmp_txBody sample_world) (take 1024 (sample_echo 0 4465))"
    by (simp add: spec_defs sample_defs model_defs)
  have pre: "\<forall>r \<in> set [?stale]. \<exists>d c. r = Recv_ok d c
       \<and> \<not> icmp_reply_matches sample_extern (icmp_txMsg sample_world sample_dst)
            (icmp_txBody sample_world) (take 1024 d)"
    using stale by simp
  have rxq: "rxqueue sample_world =
      [?stale] @ Recv_ok (sample_echo 0 4465) (sample_ts_oob [64, 111, 64, 1]) # []"
    by (simp add: sample_world_def)
  have marshal: "icmp_Marshal sample_extern (icmp_txMsg sample_world sample_dst)
                   = Inr (sample_echo 8 4465)"
    by (simp add: sample_defs model_defs)
  have send: "Sendto_result sample_world (sample_echo 8 4465) (icmp_to sample_dst) = None"
    by (simp add: sample_world_def)
  have clock: "time_Now sample_world 0 = Wallclock 1000" "time_Now sample_world (Suc (Suc 0)) = Wallclock 1040"
    by (simp_all add: time_Now_def sample_world_def)
  have whole: "snd (measureICMPRTT sample_extern sample_world timestampSourceUserspace
                     (SocketConn ?sc) ''example.net'' sample_dst)
     = Inr (Sub (Wallclock 1040) (Wallclock 1000))"
    using good pre marshal send clock
      measureICMPRTT_rxLoop_first_match
        [where X = sample_extern and W = sample_world and dst = sample_dst
           and source = timestampSourceUserspace and txAt = "Wallclock 1000" and k = 1
           and pre = "[?stale]" and dgram = "sample_echo 0 4465"
           and ctl = "sample_ts_oob [64, 111, 64, 1]" and q = "[]"
           and txBuf = "sample_echo 8 4465" and sc = ?sc and hostname = "''example.net''"]
    unfolding rxq by (simp del: measureICMPRTT_rxLoop.simps)
  have alone: "measureICMPRTT_rxLoop sample_extern sample_world timestampSourceUserspace
       (icmp_txMsg sample_world sample_dst) (icmp_txBody sample_world) (Wallclock 1000) 1
       [Recv_ok (sample_echo 0 7) []]
     = Inl (Errorf_w ''recvmsg error: '' (deadline_err sample_world))"
    using stale
      measureICMPRTT_rxLoop_first_match
        [where X = sample_extern and W = sample_world and dst = sample_dst
           and source = timestampSourceUserspace and txAt = "Wallclock 1000" and k = 1
           and dgram = "sample_echo 0 7" and ctl = "[]" and q = "[]"]
    by simp
  from stale good whole alone show ?thesis
    unfolding conn by blast
qed

text \<open>
  The same probe with the kernel source, when the matching reply arrives without a
  timestamp in its control data: the reply matches on every field, and the function returns
  an error, not a duration.
\<close>

theorem measureICMPRTT_match_without_timestamp_counterexample:
  "icmp_reply_matches sample_extern (icmp_txMsg sample_world sample_dst)
       (icmp_txBody sample_world) (take 1024 (sample_echo 0 4465))
   \<and> snd (measureICMPRTT sample_extern (sample_world\<lparr>rxqueue := [Recv_ok (sample_echo 0 4465) []]\<rparr>)
            timestampSourceKernel sample_conn ''example.net'' sample_dst)
     = Inl (Errorf_v ''failed to get rx timestamp: '' ''failed to parse timestamp from cmsgs'')"
  by (simp add: spec_defs sample_defs model_defs)

text \<open>
  C2. In the reply loop of \<open>measureSTUNRTTKernel\<close>, a received datagram is accepted only if
  it parses as a STUN response and its transaction ID is the one generated for the probe.
  A datagram that does not parse or carries another transaction ID is discarded and the
  loop goes on; the first accepted response ends the wait, whatever follows it. The loop
  runs with the transaction ID of the request that was sent, and the function returns what
  the loop returns.
\<close>

theorem measureSTUNRTTKernel_rxLoop_first_match:
  "(\<not> stun_response_matches X txID (take buflen dgram) \<longrightarrow>
      measureSTUNRTTKernel_rxLoop X W txID txAt buflen (Recv_ok dgram ctl # q) =
      measureSTUNRTTKernel_rxLoop X W txID txAt buflen q)
   \<and> ((\<forall>r \<in> set pre. \<exists>d c. r = Recv_ok d c \<and> \<not> stun_response_matches X txID (take buflen d))
        \<and> stun_response_matches X txID (take buflen dgram) \<longrightarrow>
      measureSTUNRTTKernel_rxLoop X W txID txAt buflen (pre @ Recv_ok dgram ctl # q) =
        (case parseTimestampFromCmsgs X (take 1024 ctl) of
           Inl err \<Rightarrow> Inl (Errorf_v ''failed to get rx timestamp: '' (Error err))
         | Inr rxAt \<Rightarrow> Inr (Sub rxAt txAt)))
   \<and> (Sendto_result W (stun_Request X (new_TxID W)) (stun_to dst) = None
        \<and> measureSTUNRTTKernel_txLoop X W (stun_Request X (new_TxID W)) 1024 (errqueue W)
            = Inr (txAt, buflen) \<longrightarrow>
      snd (measureSTUNRTTKernel X W (SocketConn sc) hostname dst) =
        measureSTUNRTTKernel_rxLoop X W (new_TxID W) txAt buflen (rxqueue W))"
proof (intro conjI impI)
  assume "\<not> stun_response_matches X txID (take buflen dgram)"
  then show "measureSTUNRTTKernel_rxLoop X W txID txAt buflen (Recv_ok dgram ctl # q) =
      measureSTUNRTTKernel_rxLoop X W txID txAt buflen q"
    by (rule stun_rxLoop_discard)
next
  assume "(\<forall>r \<in> set pre. \<exists>d c. r = Recv_ok d c \<and> \<not> stun_response_matches X txID (take buflen d))
        \<and> stun_response_matches X txID (take buflen dgram)"
  then have skipped: "\<forall>r \<in> set pre. \<exists>d c. r = Recv_ok d c
           \<and> \<not> stun_response_matches X txID (take buflen d)"
    and hit: "stun_response_matches X txID (take buflen dgram)"
    by blast+
  show "measureSTUNRTTKernel_rxLoop X W txID txAt buflen (pre @ Recv_ok dgram ctl # q) =
        (case parseTimestampFromCmsgs X (take 1024 ctl) of
           Inl err \<Rightarrow> Inl (Errorf_v ''failed to get rx timestamp: '' (Error err))
         | Inr rxAt \<Rightarrow> Inr (Sub rxAt txAt))"
    unfolding stun_rxLoop_skip_prefix [OF skipped] by (rule stun_rxLoop_accept [OF hit])
next
  assume "Sendto_result W (stun_Request X (new_TxID W)) (stun_to dst) = None
        \<and> measureSTUNRTTKernel_txLoop X W (stun_Request X (new_TxID W)) 1024 (errqueue W)
            = Inr (txAt, buflen)"
  then show "snd (measureSTUNRTTKernel X W (SocketConn sc) hostname dst) =
        measureSTUNRTTKernel_rxLoop X W (new_TxID W) txAt buflen (rxqueue W)"
    using measureSTUNRTTKernel_reaches_rxLoop [of W X dst txAt buflen sc hostname] by blast
qed

text \<open>
  The sample STUN probe: the response to another transaction is skipped and the response
  to this one ends the wait. The looped packet had 22 bytes, so the reply loop reads into
  a buffer of 22 bytes.
\<close>

theorem measureSTUNRTTKernel_rxLoop_first_match_witness:
  "\<not> stun_response_matches sample_extern (new_TxID sample_stun_world)
       (take 22 (sample_response [9, 9, 9, 9, 9, 9, 9, 9, 9, 9, 9, 9]))
   \<and> stun_response_matches sample_extern (new_TxID sample_stun_world)
       (take 22 (sample_response [1, 2, 3, 4, 5, 6, 7, 8, 9, 10, 11, 12]))
   \<and> snd (measureSTUNRTTKernel sample_extern sample_stun_world sample_conn
            ''example.net'' sample_dst)
     = Inr (Sub (time_Unix 1700000000 21000000) (time_Unix 1700000000 1000000))
   \<and> measureSTUNRTTKernel_rxLoop sample_extern sample_stun_world (new_TxID sample_stun_world)
       (time_Unix 1700000000 1000000) 22
       [Recv_ok (sample_response [9, 9, 9, 9, 9, 9, 9, 9, 9, 9, 9, 9]) []]
     = Inl (Errorf_w ''recvmsg error: '' (deadline_err sample_stun_world))"
proof -
  let ?sc = "\<lparr>conn_domain = 2, conn_type = 2, conn_proto = 1, conn_name = ''icmp'',
              bound = None, sockopts = []\<rparr>"
  let ?foreign = "Recv_ok (sample_response [9, 9, 9, 9, 9, 9, 9, 9, 9, 9, 9, 9])
                          (sample_ts_oob [64, 66, 15, 0])"
  have conn: "sample_conn = SocketConn ?sc"
    by (simp add: sample_conn_def)
  have foreign: "\<not> stun_response_matches sample_extern (new_TxID sample_stun_world)
       (take 22 (sample_response [9, 9, 9, 9, 9, 9, 9, 9, 9, 9, 9, 9]))"
    by (simp add: spec_defs sample_defs)
  have own: "stun_response_matches sample_extern (new_TxID sample_stun_world)
       (take 22 (sample_response [1, 2, 3, 4, 5, 6, 7, 8, 9, 10, 11, 12]))"
    by (simp add: spec_defs sample_defs)
  have pre: "\<forall>r \<in> set [?foreign]. \<exists>d c. r = Recv_ok d c
         \<and> \<not> stun_response_matches sample_extern (new_TxID sample_stun_world) (take 22 d)"
    using foreign by simp
  have rxq: "rxqueue sample_stun_world =
      [?foreign] @ Recv_ok (sample_response [1, 2, 3, 4, 5, 6, 7, 8, 9, 10, 11, 12])
                           (sample_ts_oob [64, 111, 64, 1]) # []"
    by (simp add: sample_stun_world_def sample_world_def)
  have ts: "parseTimestampFromCmsgs sample_extern (take 1024 (sample_ts_oob [64, 111, 64, 1]))
            = Inr (time_Unix 1700000000 21000000)"
    by (simp add: sample_defs model_defs)
  have send: "Sendto_result sample_stun_world
                (stun_Request sample_extern (new_TxID sample_stun_world)) (stun_to sample_dst)
              = None"
    by (simp add: sample_defs)
  have looped: "measureSTUNRTTKernel_txLoop sample_extern sample_stun_world
                  (stun_Request sample_extern (new_TxID sample_stun_world)) 1024
                  (errqueue sample_stun_world)
                = Inr (time_Unix 1700000000 1000000, 22)"
    by (simp add: sample_defs model_defs)
  have whole: "snd (measureSTUNRTTKernel sample_extern sample_stun_world (SocketConn ?sc)
            ''example.net'' sample_dst)
     = Inr (Sub (time_Unix 1700000000 21000000) (time_Unix 1700000000 1000000))"
    using own pre ts send looped
      measureSTUNRTTKernel_rxLoop_first_match
        [where X = sample_extern and txID = "new_TxID sample_stun_world" and buflen = 22
           and dgram = "sample_response [1, 2, 3, 4, 5, 6, 7, 8, 9, 10, 11, 12]"
           and txAt = "time_Unix 1700000000 1000000"
           and ctl = "sample_ts_oob [64, 111, 64, 1]" and q = "[]" and pre = "[?foreign]"
           and W = sample_stun_world and dst = sample_dst and sc = ?sc
           and hostname = "''example.net''"]
    unfolding rxq by (simp del: measureSTUNRTTKernel_rxLoop.simps)
  have alone: "measureSTUNRTTKernel_rxLoop sample_extern sample_stun_world (new_TxID sample_stun_world)
       (time_Unix 1700000000 1000000) 22
       [Recv_ok (sample_response [9, 9, 9, 9, 9, 9, 9, 9, 9, 9, 9, 9]) []]
     = Inl (Errorf_w ''recvmsg error: '' (deadline_err sample_stun_world))"
    using foreign
      measureSTUNRTTKernel_rxLoop_first_match
        [where X = sample_extern and W = sample_stun_world
           and txID = "new_TxID sample_stun_world" and buflen = 22
           and dgram = "sample_response [9, 9, 9, 9, 9, 9, 9, 9, 9, 9, 9, 9]"
           and txAt = "time_Unix 1700000000 1000000" and ctl = "[]" and q = "[]"]
    by simp
  from foreign own whole alone show ?thesis
    unfolding conn by blast
qed

text \<open>
  C3. A successful measurement returns receive timestamp minus transmit timestamp, both
  from one clock. With the kernel source (always so for \<open>measureSTUNRTTKernel\<close>) the
  transmit timestamp is decoded from the control messages of a read of the error queue and
  the receive timestamp from those of a received datagram. With the userspace source both
  are readings of the wall clock: the one taken before the send, and the one taken after
  the receive that matched.
\<close>

theorem rtt_same_clock_source:
  "(snd (measureICMPRTT X W source c hostname dst) = Inr d \<longrightarrow>
      (\<exists>rx tx. d = Sub rx tx \<and> timestamp_origin rx = source \<and> timestamp_origin tx = source
         \<and> (if source = timestampSourceKernel
            then \<exists>dg1 c1 dg2 c2.
                   Recv_ok dg1 c1 \<in> set (errqueue W)
                   \<and> parseTimestampFromCmsgs X (take 1024 c1) = Inr tx
                   \<and> Recv_ok dg2 c2 \<in> set (rxqueue W)
                   \<and> parseTimestampFromCmsgs X (take 1024 c2) = Inr rx
            else tx = time_Now W 0
                 \<and> (\<exists>i < length (rxqueue W). (\<exists>dg c'. rxqueue W ! i = Recv_ok dg c')
                        \<and> rx = time_Now W (Suc i)))))
   \<and> (snd (measureSTUNRTTKernel X W c hostname dst) = Inr d \<longrightarrow>
      (\<exists>rx tx. d = Sub rx tx \<and> timestamp_origin rx = timestampSourceKernel
         \<and> timestamp_origin tx = timestampSourceKernel
         \<and> (\<exists>dg1 c1 dg2 c2.
                   Recv_ok dg1 c1 \<in> set (errqueue W)
                   \<and> parseTimestampFromCmsgs X (take 1024 c1) = Inr tx
                   \<and> Recv_ok dg2 c2 \<in> set (rxqueue W)
                   \<and> parseTimestampFromCmsgs X (take 1024 c2) = Inr rx)))"
proof (intro conjI impI)
  assume ok: "snd (measureICMPRTT X W source c hostname dst) = Inr d"
  show "\<exists>rx tx. d = Sub rx tx \<and> timestamp_origin rx = source \<and> timestamp_origin tx = source
         \<and> (if source = timestampSourceKernel
            then \<exists>dg1 c1 dg2 c2.
                   Recv_ok dg1 c1 \<in> set (errqueue W)
                   \<and> parseTimestampFromCmsgs X (take 1024 c1) = Inr tx
                   \<and> Recv_ok dg2 c2 \<in> set (rxqueue W)
                   \<and> parseTimestampFromCmsgs X (take 1024 c2) = Inr rx
            else tx = time_Now W 0
                 \<and> (\<exists>i < length (rxqueue W). (\<exists>dg c'. rxqueue W ! i = Recv_ok dg c')
                        \<and> rx = time_Now W (Suc i)))"
  proof (cases "source = timestampSourceKernel")
    case True
    with ok measureICMPRTT_kernel_success [of X W c hostname dst d]
    obtain rx tx dg1 c1 dg2 c2 where *: "d = Sub rx tx"
      "Recv_ok dg1 c1 \<in> set (errqueue W)" "parseTimestampFromCmsgs X (take 1024 c1) = Inr tx"
      "Recv_ok dg2 c2 \<in> set (rxqueue W)" "parseTimestampFromCmsgs X (take 1024 c2) = Inr rx"
      by blast
    from *(3,5) have "timestamp_origin tx = source" "timestamp_origin rx = source"
      using True by (simp_all add: parseTimestampFromCmsgs_origin)
    with * True show ?thesis by auto
  next
    case False
    then have src: "source = timestampSourceUserspace" by (cases source) auto
    from measureICMPRTT_userspace_success [OF False ok]
    obtain i where "i < length (rxqueue W)" "\<exists>dg c'. rxqueue W ! i = Recv_ok dg c'"
      "d = Sub (time_Now W (Suc i)) (time_Now W 0)" by blast
    with False src show ?thesis by (auto simp: time_Now_def)
  qed
next
  assume ok: "snd (measureSTUNRTTKernel X W c hostname dst) = Inr d"
  from measureSTUNRTTKernel_success [OF ok]
  obtain rx tx dg1 c1 dg2 c2 where *: "d = Sub rx tx"
      "Recv_ok dg1 c1 \<in> set (errqueue W)" "parseTimestampFromCmsgs X (take 1024 c1) = Inr tx"
      "Recv_ok dg2 c2 \<in> set (rxqueue W)" "parseTimestampFromCmsgs X (take 1024 c2) = Inr rx"
    by blast
  from *(3,5) have "timestamp_origin tx = timestampSourceKernel"
    "timestamp_origin rx = timestampSourceKernel"
    by (simp_all add: parseTimestampFromCmsgs_origin)
  with * show "\<exists>rx tx. d = Sub rx tx \<and> timestamp_origin rx = timestampSourceKernel
         \<and> timestamp_origin tx = timestampSourceKernel
         \<and> (\<exists>dg1 c1 dg2 c2.
                   Recv_ok dg1 c1 \<in> set (errqueue W)
                   \<and> parseTimestampFromCmsgs X (take 1024 c1) = Inr tx
                   \<and> Recv_ok dg2 c2 \<in> set (rxqueue W)
                   \<and> parseTimestampFromCmsgs X (take 1024 c2) = Inr rx)"
    by blast
qed

text \<open>
  The sample probes: with the userspace source the result joins two clock readings, with
  the kernel source and for STUN two timestamps decoded from control messages.
\<close>

theorem rtt_same_clock_source_witness:
  "snd (measureICMPRTT sample_extern sample_world timestampSourceUserspace sample_conn
          ''example.net'' sample_dst) = Inr (Sub (Wallclock 1040) (Wallclock 1000))
   \<and> snd (measureICMPRTT sample_extern sample_world timestampSourceKernel sample_conn
          ''example.net'' sample_dst)
       = Inr (Sub (time_Unix 1700000000 21000000) (time_Unix 1700000000 1000000))
   \<and> snd (measureSTUNRTTKernel sample_extern sample_stun_world sample_conn
          ''example.net'' sample_dst)
       = Inr (Sub (time_Unix 1700000000 21000000) (time_Unix 1700000000 1000000))
   \<and> (\<exists>rx tx. Sub (Wallclock 1040) (Wallclock 1000) = Sub rx tx
         \<and> timestamp_origin rx = timestampSourceUserspace
         \<and> timestamp_origin tx = timestampSourceUserspace
         \<and> tx = time_Now sample_world 0
         \<and> (\<exists>i < length (rxqueue sample_world). rx = time_Now sample_world (Suc i)))
   \<and> (\<exists>rx tx. Sub (time_Unix 1700000000 21000000) (time_Unix 1700000000 1000000) = Sub rx tx
         \<and> timestamp_origin rx = timestampSourceKernel
         \<and> timestamp_origin tx = timestampSourceKernel
         \<and> (\<exists>dg1 c1 dg2 c2.
                Recv_ok dg1 c1 \<in> set (errqueue sample_stun_world)
                \<and> parseTimestampFromCmsgs sample_extern (take 1024 c1) = Inr tx
                \<and> Recv_ok dg2 c2 \<in> set (rxqueue sample_stun_world)
                \<and> parseTimestampFromCmsgs sample_extern (take 1024 c2) = Inr rx))"
proof -
  have user: "snd (measureICMPRTT sample_extern sample_world timestampSourceUserspace sample_conn
          ''example.net'' sample_dst) = Inr (Sub (Wallclock 1040) (Wallclock 1000))"
    by (simp add: sample_defs model_defs)
  have kern: "snd (measureICMPRTT sample_extern sample_world timestampSourceKernel sample_conn
          ''example.net'' sample_dst)
       = Inr (Sub (time_Unix 1700000000 21000000) (time_Unix 1700000000 1000000))"
    by (simp add: sample_defs model_defs)
  have stun: "snd (measureSTUNRTTKernel sample_extern sample_stun_world sample_conn
          ''example.net'' sample_dst)
       = Inr (Sub (time_Unix 1700000000 21000000) (time_Unix 1700000000 1000000))"
    by (simp add: sample_defs model_defs)
  have a: "\<exists>rx tx. Sub (Wallclock 1040) (Wallclock 1000) = Sub rx tx
         \<and> timestamp_origin rx = timestampSourceUserspace
         \<and> timestamp_origin tx = timestampSourceUserspace
         \<and> tx = time_Now sample_world 0
         \<and> (\<exists>i < length (rxqueue sample_world). rx = time_Now sample_world (Suc i))"
    using user
      rtt_same_clock_source
        [where X = sample_extern and W = sample_world and source = timestampSourceUserspace
           and c = sample_conn and hostname = "''example.net''" and dst = sample_dst
           and d = "Sub (Wallclock 1040) (Wallclock 1000)"]
    by (auto simp: time_Now_def)
  have b: "\<exists>rx tx. Sub (time_Unix 1700000000 21000000) (time_Unix 1700000000 1000000) = Sub rx tx
         \<and> timestamp_origin rx = timestampSourceKernel
         \<and> timestamp_origin tx = timestampSourceKernel
         \<and> (\<exists>dg1 c1 dg2 c2.
                Recv_ok dg1 c1 \<in> set (errqueue sample_stun_world)
                \<and> parseTimestampFromCmsgs sample_extern (take 1024 c1) = Inr tx
                \<and> Recv_ok dg2 c2 \<in> set (rxqueue sample_stun_world)
                \<and> parseTimestampFromCmsgs sample_extern (take 1024 c2) = Inr rx)"
    using stun
      rtt_same_clock_source
        [where X = sample_extern and W = sample_stun_world and source = timestampSourceKernel
           and c = sample_conn and hostname = "''example.net''" and dst = sample_dst
           and d = "Sub (time_Unix 1700000000 21000000) (time_Unix 1700000000 1000000)"]
    by blast
  from user kern stun a b show ?thesis by blast
qed

text \<open>
  C4. When the buffer parses as control messages and one of them has level SOL_SOCKET,
  type SO_TIMESTAMPING_NEW and 16 bytes of payload or more, \<open>parseTimestampFromCmsgs\<close>
  returns the timestamp whose seconds are the first 8 payload bytes and whose nanoseconds
  are the next 8, each read in native byte order as a signed 64-bit integer; the message
  read is the first such one. When the buffer holds no such message (it does not parse, or
  no message of it qualifies), the result is an error.
\<close>

theorem parseTimestampFromCmsgs_decodes:
  "(unix_ParseSocketControlMessage X oob = Inr msgs \<and> find is_timestamp_cmsg msgs = Some m \<longrightarrow>
      parseTimestampFromCmsgs X oob =
        Inr (time_Unix (sint (NativeEndian_Uint64 (NativeEndian X) (take 8 (Cmsg_Data m))))
                       (sint (NativeEndian_Uint64 (NativeEndian X) (take 8 (drop 8 (Cmsg_Data m)))))))
   \<and> ((\<forall>ms. unix_ParseSocketControlMessage X oob = Inr ms \<longrightarrow>
              (\<forall>m' \<in> set ms. \<not> is_timestamp_cmsg m'))
        \<longrightarrow> (\<exists>err. parseTimestampFromCmsgs X oob = Inl err))"
proof (intro conjI impI)
  assume "unix_ParseSocketControlMessage X oob = Inr msgs \<and> find is_timestamp_cmsg msgs = Some m"
  then show "parseTimestampFromCmsgs X oob =
        Inr (time_Unix (sint (NativeEndian_Uint64 (NativeEndian X) (take 8 (Cmsg_Data m))))
                       (sint (NativeEndian_Uint64 (NativeEndian X) (take 8 (drop 8 (Cmsg_Data m))))))"
    by (simp add: parseTimestampFromCmsgs_def scan_cmsgs_find)
next
  assume none: "\<forall>ms. unix_ParseSocketControlMessage X oob = Inr ms \<longrightarrow>
              (\<forall>m' \<in> set ms. \<not> is_timestamp_cmsg m')"
  show "\<exists>err. parseTimestampFromCmsgs X oob = Inl err"
  proof (cases "unix_ParseSocketControlMessage X oob")
    case (Inl e)
    then show ?thesis by (simp add: parseTimestampFromCmsgs_def)
  next
    case (Inr ms)
    with none have "find is_timestamp_cmsg ms = None"
      by (simp add: find_None_iff)
    with Inr show ?thesis by (simp add: parseTimestampFromCmsgs_def scan_cmsgs_find)
  qed
qed

text \<open>
  A buffer with one timestamping message for 1700000000 seconds and 500000000
  nanoseconds, in little-endian order, and the empty buffer.
\<close>

theorem parseTimestampFromCmsgs_decodes_witness:
  "unix_ParseSocketControlMessage sample_extern (sample_ts_oob [0, 101, 205, 29]) =
     Inr [\<lparr>Header_Level = 1, Header_Type = 65,
           Cmsg_Data = [0, 241, 83, 101, 0, 0, 0, 0, 0, 101, 205, 29, 0, 0, 0, 0]\<rparr>]
   \<and> parseTimestampFromCmsgs sample_extern (sample_ts_oob [0, 101, 205, 29]) =
       Inr (time_Unix 1700000000 500000000)
   \<and> unix_ParseSocketControlMessage sample_extern [] = Inr []
   \<and> (\<exists>err. parseTimestampFromCmsgs sample_extern [] = Inl err)"
proof -
  let ?m = "\<lparr>Header_Level = 1, Header_Type = 65,
             Cmsg_Data = [0, 241, 83, 101, 0, 0, 0, 0, 0, 101, 205, 29, 0, 0, 0, 0]\<rparr>"
  have parsed: "unix_ParseSocketControlMessage sample_extern (sample_ts_oob [0, 101, 205, 29]) =
     Inr [?m]"
    by (simp add: sample_defs)
  have found: "find is_timestamp_cmsg [?m] = Some ?m"
    by (simp add: is_timestamp_cmsg_def SOL_SOCKET_def SO_TIMESTAMPING_NEW_def)
  have empty: "unix_ParseSocketControlMessage sample_extern [] = Inr []"
    by (simp add: sample_defs)
  show ?thesis
    using parsed found empty
      parseTimestampFromCmsgs_decodes
        [of sample_extern "sample_ts_oob [0, 101, 205, 29]" "[?m]" ?m]
      parseTimestampFromCmsgs_decodes [of sample_extern "[]" "[]" ?m]
    by (simp add: sample_extern_def LittleEndian_Uint64_def)
qed

text \<open>
  C5. In the loop of \<open>measureICMPRTT\<close> over the error queue, a looped packet whose tail
  parses as a message with an echo body is taken as the transmit confirmation exactly when
  its sequence number, its code and its payload are the transmitted ones. The message
  type plays no part (the loop compares the looped message's type with itself), so an echo
  message of another type with these three fields equal is accepted.
\<close>

theorem measureICMPRTT_txLoop_accepts:
  "length txBuf \<le> length (take buflen dgram)
   \<and> icmp_ParseMessage X (Protocol (Type txMsg))
        (drop (length (take buflen dgram) - length txBuf) (take buflen dgram)) = Inr m
   \<and> Body m = Echo b \<longrightarrow>
   measureICMPRTT_txLoop X W txMsg txBody txBuf buflen (Recv_ok dgram ctl # q) =
     (if Seq b = Seq txBody \<and> Code m = Code txMsg \<and> Data b = Data txBody
      then (case parseTimestampFromCmsgs X (take 1024 ctl) of
              Inl err \<Rightarrow> Inl (Errorf_v ''failed to get tx timestamp: '' (Error err))
            | Inr txAt \<Rightarrow> Inr txAt)
      else measureICMPRTT_txLoop X W txMsg txBody txBuf (length (take buflen dgram)) q)"
  by (auto simp: Let_def)

text \<open>
  The request sent has type 8. A looped echo message of type 0 with the sequence number,
  code and payload of the request is accepted; one of type 8 with another sequence number
  is not, and the loop runs into the deadline.
\<close>

theorem measureICMPRTT_txLoop_accepts_witness:
  "Type (icmp_txMsg sample_world sample_dst) = ipv4_ICMPType 8
   \<and> icmp_ParseMessage sample_extern 1 (sample_echo 0 4465) =
       Inr \<lparr>Type = ipv4_ICMPType 0, Code = 0, Checksum = 0,
            Body = Echo \<lparr>ID = 0, Seq = 4465, Data = map of_char ''stunstamp''\<rparr>\<rparr>
   \<and> measureICMPRTT_txLoop sample_extern sample_world (icmp_txMsg sample_world sample_dst)
       (icmp_txBody sample_world) (sample_echo 8 4465) 1024
       [Recv_ok ([222, 173] @ sample_echo 0 4465) (sample_ts_oob [64, 66, 15, 0])]
     = Inr (time_Unix 1700000000 1000000)
   \<and> measureICMPRTT_txLoop sample_extern sample_world (icmp_txMsg sample_world sample_dst)
       (icmp_txBody sample_world) (sample_echo 8 4465) 1024
       [Recv_ok ([222, 173] @ sample_echo 8 7) (sample_ts_oob [64, 66, 15, 0])]
     = Inl (Errorf_v ''recvmsg (MSG_ERRQUEUE) error: '' (Error (deadline_err sample_world)))"
proof -
  let ?reply = "\<lparr>Type = ipv4_ICMPType 0, Code = 0, Checksum = 0,
            Body = Echo \<lparr>ID = 0, Seq = 4465, Data = map of_char ''stunstamp''\<rparr>\<rparr>"
  let ?other = "\<lparr>Type = ipv4_ICMPType 8, Code = 0, Checksum = 0,
            Body = Echo \<lparr>ID = 0, Seq = 7, Data = map of_char ''stunstamp''\<rparr>\<rparr>"
  have ty: "Type (icmp_txMsg sample_world sample_dst) = ipv4_ICMPType 8"
    by (simp add: sample_defs model_defs)
  have p1: "icmp_ParseMessage sample_extern 1 (sample_echo 0 4465) = Inr ?reply"
    by (simp add: sample_defs)
  have p2: "icmp_ParseMessage sample_extern 1 (sample_echo 8 7) = Inr ?other"
    by (simp add: sample_defs)
  have len: "length (sample_echo 8 4465) = 17" "length (sample_echo 0 4465) = 17"
    "length (sample_echo 8 7) = 17"
    by (simp_all add: sample_echo_def)
  have ts: "parseTimestampFromCmsgs sample_extern (take 1024 (sample_ts_oob [64, 66, 15, 0]))
            = Inr (time_Unix 1700000000 1000000)"
    by (simp add: sample_defs model_defs)
  have body: "Seq (icmp_txBody sample_world) = 4465"
    "Data (icmp_txBody sample_world) = map of_char ''stunstamp''"
    "Code (icmp_txMsg sample_world sample_dst) = 0"
    by (simp_all add: sample_defs model_defs)
  show ?thesis
    using ty p1 p2 len ts body
      measureICMPRTT_txLoop_accepts
        [where txBuf = "sample_echo 8 4465" and buflen = 1024
           and dgram = "[222, 173] @ sample_echo 0 4465" and X = sample_extern
           and W = sample_world and txMsg = "icmp_txMsg sample_world sample_dst" and m = ?reply
           and b = "\<lparr>ID = 0, Seq = 4465, Data = map of_char ''stunstamp''\<rparr>"
           and txBody = "icmp_txBody sample_world" and ctl = "sample_ts_oob [64, 66, 15, 0]"
           and q = "[]"]
      measureICMPRTT_txLoop_accepts
        [where txBuf = "sample_echo 8 4465" and buflen = 1024
           and dgram = "[222, 173] @ sample_echo 8 7" and X = sample_extern
           and W = sample_world and txMsg = "icmp_txMsg sample_world sample_dst" and m = ?other
           and b = "\<lparr>ID = 0, Seq = 7, Data = map of_char ''stunstamp''\<rparr>"
           and txBody = "icmp_txBody sample_world" and ctl = "sample_ts_oob [64, 66, 15, 0]"
           and q = "[]"]
    by simp
qed

text \<open>
  C6. \<open>getProtocolSupportInfo\<close> depends on the protocol value alone and returns the fixed
  table: STUN is (kernel, userspace, stable), HTTPS is (no kernel, userspace, stable), TCP is
  (kernel, no userspace, stable), ICMP is (kernel, userspace, not stable).
\<close>

theorem getProtocolSupportInfo_table:
  "getProtocolSupportInfo protocolSTUN = \<lparr>kernelTS = True, userspaceTS = True, stableConn = True\<rparr>
   \<and> getProtocolSupportInfo protocolHTTPS = \<lparr>kernelTS = False, userspaceTS = True, stableConn = True\<rparr>
   \<and> getProtocolSupportInfo protocolTCP = \<lparr>kernelTS = True, userspaceTS = False, stableConn = True\<rparr>
   \<and> getProtocolSupportInfo protocolICMP = \<lparr>kernelTS = True, userspaceTS = True, stableConn = False\<rparr>"
  by simp

text \<open>
  C7. Both connection factories report a failure to set the timestamping option:
  \<open>getUDPConnKernelTimestamp\<close> returns a non-nil error when \<open>SetsockoptInt\<close> fails, and so
  does \<open>getICMPConn\<close> with the kernel source. Neither returns a nil error without the
  option set on the connection it returns.
\<close>

theorem conn_factories_fail_loudly:
  "(socket_err K = None \<and> bind_err K = None \<and> setsockopt_err K = Some e \<longrightarrow>
      getUDPConnKernelTimestamp K = (None, Some e))
   \<and> (socket_err K = None \<and> setsockopt_err K = Some e \<longrightarrow>
      snd (getICMPConn K forDst timestampSourceKernel) = Some e)
   \<and> (setsockopt_err K \<noteq> None \<longrightarrow>
      snd (getUDPConnKernelTimestamp K) \<noteq> None
      \<and> snd (getICMPConn K forDst timestampSourceKernel) \<noteq> None)
   \<and> (snd (getUDPConnKernelTimestamp K) = None \<longrightarrow>
      (\<exists>c. fst (getUDPConnKernelTimestamp K) = Some c
           \<and> (SOL_SOCKET, SO_TIMESTAMPING_NEW, timestampingFlags) \<in> set (sockopts c)))
   \<and> (snd (getICMPConn K forDst timestampSourceKernel) = None \<longrightarrow>
      (\<exists>c. fst (getICMPConn K forDst timestampSourceKernel) = Some c
           \<and> (SOL_SOCKET, SO_TIMESTAMPING_NEW, timestampingFlags) \<in> set (sockopts c)))"
  by (auto simp: getUDPConnKernelTimestamp_def getICMPConn_def socket_Socket_def Bind_def
        SetsockoptInt_def Let_def split: option.splits)

text \<open>
  A system that refuses the option, and one that grants it: the option triple is
  (1, 65, 26).
\<close>

theorem conn_factories_fail_loudly_witness:
  "getUDPConnKernelTimestamp sample_sys_no_timestamping =
     (None, Some (errors_New ''operation not permitted''))
   \<and> snd (getICMPConn sample_sys_no_timestamping (Addr_v4 [192, 0, 2, 1]) timestampSourceKernel) =
       Some (errors_New ''operation not permitted'')
   \<and> snd (getUDPConnKernelTimestamp sample_sys) = None
   \<and> snd (getICMPConn sample_sys (Addr_v4 [192, 0, 2, 1]) timestampSourceKernel) = None
   \<and> (\<exists>c. fst (getUDPConnKernelTimestamp sample_sys) = Some c \<and> (1, 65, 26) \<in> set (sockopts c))
   \<and> (\<exists>c. fst (getICMPConn sample_sys (Addr_v4 [192, 0, 2, 1]) timestampSourceKernel) = Some c
          \<and> (1, 65, 26) \<in> set (sockopts c))"
proof -
  have fails: "socket_err sample_sys_no_timestamping = None"
    "bind_err sample_sys_no_timestamping = None"
    "setsockopt_err sample_sys_no_timestamping = Some (errors_New ''operation not permitted'')"
    by (simp_all add: sample_defs)
  have ok: "snd (getUDPConnKernelTimestamp sample_sys) = None"
    "snd (getICMPConn sample_sys (Addr_v4 [192, 0, 2, 1]) timestampSourceKernel) = None"
    by (simp_all add: sample_defs factory_defs)
  have opt: "(SOL_SOCKET, SO_TIMESTAMPING_NEW, timestampingFlags) = (1, 65, 26)"
    by (simp add: factory_defs model_defs)
  show ?thesis
    using fails ok
      conn_factories_fail_loudly
        [of sample_sys_no_timestamping "errors_New ''operation not permitted''"
            "Addr_v4 [192, 0, 2, 1]"]
      conn_factories_fail_loudly
        [of sample_sys "errors_New ''operation not permitted''" "Addr_v4 [192, 0, 2, 1]"]
    unfolding opt by simp
qed



text \<open>
  C9. \<open>measureICMPRTT\<close> hands one datagram to \<open>Sendto\<close>: the marshalled echo message
  with identifier 0, a sequence number drawn from the random source and lying between 0
  and 65535, the payload \<open>stunstamp\<close>, and the type ICMPv4 echo request (8) when the
  destination is an IPv4 address, ICMPv6 echo request (128) otherwise.
\<close>

theorem measureICMPRTT_transmits:
  "icmp_Marshal X (icmp_txMsg W dst) = Inr txBuf \<longrightarrow>
     fst (measureICMPRTT X W source (SocketConn sc) hostname dst) = [(txBuf, icmp_to dst)]
     \<and> (\<exists>b. Body (icmp_txMsg W dst) = Echo b \<and> ID b = 0 \<and> 0 \<le> Seq b \<and> Seq b \<le> 65535
            \<and> Seq b = rand_Int32N W math_MaxUint16
            \<and> Data b = map of_char ''stunstamp'')
     \<and> Type (icmp_txMsg W dst) =
          (if Is4 (Addr dst) then ipv4_ICMPType 8 else ipv6_ICMPType 128)"
  by (auto simp: measureICMPRTT_def icmp_txMsg_def icmp_txBody_def Let_def rand_Int32N_def
        math_MaxUint16_def ipv4_ICMPTypeEcho_def ipv6_ICMPTypeEchoRequest_def
        split: option.splits sum.splits)

text \<open>The sample probe sends the echo request with sequence number 4465 to 192.0.2.1.\<close>

theorem measureICMPRTT_transmits_witness:
  "icmp_Marshal sample_extern (icmp_txMsg sample_world sample_dst) = Inr (sample_echo 8 4465)
   \<and> fst (measureICMPRTT sample_extern sample_world timestampSourceUserspace
            (SocketConn \<lparr>conn_domain = 2, conn_type = 2, conn_proto = 1, conn_name = ''icmp'',
                         bound = None, sockopts = []\<rparr>) ''example.net'' sample_dst)
       = [(sample_echo 8 4465, SockaddrInet4 0 [192, 0, 2, 1])]
   \<and> Body (icmp_txMsg sample_world sample_dst) =
       Echo \<lparr>ID = 0, Seq = 4465, Data = map of_char ''stunstamp''\<rparr>
   \<and> Type (icmp_txMsg sample_world sample_dst) = ipv4_ICMPType 8"
proof -
  have m: "icmp_Marshal sample_extern (icmp_txMsg sample_world sample_dst) = Inr (sample_echo 8 4465)"
    by (simp add: sample_defs model_defs)
  have body: "Body (icmp_txMsg sample_world sample_dst) =
       Echo \<lparr>ID = 0, Seq = 4465, Data = map of_char ''stunstamp''\<rparr>"
    by (simp add: sample_defs model_defs)
  have to: "icmp_to sample_dst = SockaddrInet4 0 [192, 0, 2, 1]" "Is4 (Addr sample_dst)"
    by (simp_all add: sample_defs model_defs)
  show ?thesis
    using m body to
      measureICMPRTT_transmits
        [of sample_extern sample_world sample_dst "sample_echo 8 4465" timestampSourceUserspace
            "\<lparr>conn_domain = 2, conn_type = 2, conn_proto = 1, conn_name = ''icmp'',
                         bound = None, sockopts = []\<rparr>" "''example.net''"]
    by simp
qed

text \<open>
  C10. When the socket is created and setting the option then fails, \<open>getICMPConn\<close> with
  the kernel source returns the connection it created together with the error, while
  \<open>getUDPConnKernelTimestamp\<close> returns a nil connection with every error. With the
  userspace source \<open>getICMPConn\<close> does not set the option: its result does not depend on
  what setting it would give, the connection has no option set, and the error is nil
  whenever the socket is created.
\<close>

theorem getICMPConn_returns_conn_with_error:
  "(socket_err K = None \<and> setsockopt_err K = Some e \<longrightarrow>
      getICMPConn K forDst timestampSourceKernel =
        (Some \<lparr>conn_domain = (if Is6 forDst then AF_INET6 else AF_INET),
               conn_type = SOCK_DGRAM,
               conn_proto = (if Is6 forDst then IPPROTO_ICMPV6 else IPPROTO_ICMP),
               conn_name = ''icmp'', bound = None, sockopts = []\<rparr>,
         Some e))
   \<and> (snd (getUDPConnKernelTimestamp K) \<noteq> None \<longrightarrow> fst (getUDPConnKernelTimestamp K) = None)
   \<and> (socket_err K = None \<longrightarrow>
      getICMPConn K forDst timestampSourceUserspace =
        (Some \<lparr>conn_domain = (if Is6 forDst then AF_INET6 else AF_INET),
               conn_type = SOCK_DGRAM,
               conn_proto = (if Is6 forDst then IPPROTO_ICMPV6 else IPPROTO_ICMP),
               conn_name = ''icmp'', bound = None, sockopts = []\<rparr>,
         None))
   \<and> getICMPConn (K\<lparr>setsockopt_err := r\<rparr>) forDst timestampSourceUserspace
       = getICMPConn K forDst timestampSourceUserspace"
  by (auto simp: getUDPConnKernelTimestamp_def getICMPConn_def socket_Socket_def Bind_def
        SetsockoptInt_def Let_def split: option.splits)

text \<open>The system that refuses the option, for an IPv6 destination.\<close>

theorem getICMPConn_returns_conn_with_error_witness:
  "getICMPConn sample_sys_no_timestamping (Addr_v6 (replicate 16 0)) timestampSourceKernel =
     (Some \<lparr>conn_domain = 10, conn_type = 2, conn_proto = 58, conn_name = ''icmp'',
            bound = None, sockopts = []\<rparr>,
      Some (errors_New ''operation not permitted''))
   \<and> snd (getUDPConnKernelTimestamp sample_sys_no_timestamping) \<noteq> None
   \<and> fst (getUDPConnKernelTimestamp sample_sys_no_timestamping) = None
   \<and> getICMPConn sample_sys_no_timestamping (Addr_v6 (replicate 16 0)) timestampSourceUserspace =
     (Some \<lparr>conn_domain = 10, conn_type = 2, conn_proto = 58, conn_name = ''icmp'',
            bound = None, sockopts = []\<rparr>,
      None)"
proof -
  have fails: "socket_err sample_sys_no_timestamping = None"
    "setsockopt_err sample_sys_no_timestamping = Some (errors_New ''operation not permitted'')"
    by (simp_all add: sample_defs)
  have err: "snd (getUDPConnKernelTimestamp sample_sys_no_timestamping) \<noteq> None"
    by (simp add: sample_defs factory_defs)
  show ?thesis
    using fails err
      getICMPConn_returns_conn_with_error
        [of sample_sys_no_timestamping "errors_New ''operation not permitted''"
            "Addr_v6 (replicate 16 0)"]
    by (simp add: factory_defs)
qed

end
